theory Spec2Isabelle
  imports Main "HOL-Library.Word"
begin

unbundle bit_operations_syntax

section \<open>Shared data model\<close>

text \<open>
  Go's \<^verbatim>\<open>int64\<close> (and \<^verbatim>\<open>int\<close> on the 64-bit targets the broker is built for) is a
  64-bit word: \<open>+\<close> and \<open>-\<close> wrap, and the order comparisons of the source are the signed
  ones (\<open><s\<close>, \<open>\<le>s\<close>).
\<close>

type_synonym int64 = "64 word"

type_synonym bytes = "8 word list"

text \<open>
  gRPC status codes, as far as \<^verbatim>\<open>mapGRPCCtxErr\<close> tells them apart.
\<close>

datatype grpc_code = Code_Canceled | Code_Unknown | Code_DeadlineExceeded | Code_Unavailable

text \<open>
  \<^verbatim>\<open>pb.Status\<close> of the broker protocol: the codes the modelled code and the
  specification name.
\<close>

datatype Status =
    Status_OK
  | Status_JOURNAL_NOT_FOUND
  | Status_NO_JOURNAL_PRIMARY_BROKER
  | Status_NOT_JOURNAL_PRIMARY_BROKER
  | Status_NOT_JOURNAL_BROKER
  | Status_INSUFFICIENT_JOURNAL_BROKERS
  | Status_OFFSET_NOT_YET_AVAILABLE
  | Status_WRONG_ROUTE
  | Status_FRAGMENT_MISMATCH
  | Status_NOT_ALLOWED
  | Status_WRONG_APPEND_OFFSET
  | Status_INDEX_HAS_GREATER_OFFSET

text \<open>
  Go \<^verbatim>\<open>error\<close> values. The named sentinels of the source are constructors, so that the
  source's \<^verbatim>\<open>err == io.EOF\<close> is equality of constructors; \<^verbatim>\<open>nil\<close> is \<open>None\<close> of
  \<open>error option\<close>. \<open>WithMessage\<close> and \<open>Wrap\<close> are the wrappers of \<^verbatim>\<open>github.com/pkg/errors\<close>
  applied to a non-nil error, \<open>ExtendContext\<close> is \<^verbatim>\<open>pb.ExtendContext\<close>, and
  \<open>StatusError st\<close> is \<^verbatim>\<open>errors.New(st.String())\<close>.
\<close>

datatype error =
    EOF
  | ErrUnexpectedEOF
  | DeadlineExceeded
  | Canceled
  | errExpectedEOF
  | errExpectedContentChunk
  | ErrDidNotReadExpectedEOF
  | ErrOffsetJump
  | ErrNotJournalBroker
  | ErrOffsetNotYetAvailable
  | ErrResolverStopped
  | ErrorString string
  | StatusError Status
  | ValidationError string
  | ExtendContext error string
  | GRPCStatus grpc_code
  | WithMessage error string
  | Wrap error string

text \<open>
  \<^verbatim>\<open>errors.WithMessage(err, msg)\<close> and \<^verbatim>\<open>errors.Wrap(err, msg)\<close> return nil for a nil
  error.
\<close>

definition errors_WithMessage :: "error option \<Rightarrow> string \<Rightarrow> error option" where
  "errors_WithMessage e msg = (case e of None \<Rightarrow> None | Some x \<Rightarrow> Some (WithMessage x msg))"

definition errors_Wrap :: "error option \<Rightarrow> string \<Rightarrow> error option" where
  "errors_Wrap e msg = (case e of None \<Rightarrow> None | Some x \<Rightarrow> Some (Wrap x msg))"

text \<open>
  What a Go call does besides returning: it returns a value, panics, or blocks forever (a
  send on a nil channel).
\<close>

datatype 'a outcome = Returns 'a | Panics string | BlocksForever

datatype CompressionCodec = INVALID | NONE | GZIP | ZSTANDARD | SNAPPY | GZIP_OFFLOAD_DECOMPRESSION

text \<open>
  \<^verbatim>\<open>pb.Fragment\<close>: the fields the modelled code reads or writes.
\<close>

record Fragment =
  frag_Journal :: string
  frag_Begin :: int64
  frag_End :: int64
  frag_Sum :: bytes
  frag_CompressionCodec :: CompressionCodec

definition ContentLength :: "Fragment \<Rightarrow> int64" where
  "ContentLength f = frag_End f - frag_Begin f"

record ProcessSpec_ID =
  Zone :: string
  Suffix :: string

text \<open>The zero value \<^verbatim>\<open>pb.ProcessSpec_ID{}\<close>.\<close>

definition ProcessSpec_ID_zero :: ProcessSpec_ID where
  "ProcessSpec_ID_zero = \<lparr>Zone = [], Suffix = []\<rparr>"

record Route =
  Members :: "ProcessSpec_ID list"
  Primary :: int

text \<open>\<^verbatim>\<open>pb.Header\<close>, with the \<^verbatim>\<open>Etcd\<close> sub-message flattened.\<close>

record Header =
  hdr_ProcessId :: ProcessSpec_ID
  hdr_Route :: Route
  hdr_Etcd_ClusterId :: "64 word"
  hdr_Etcd_Revision :: int64

section \<open>client: FragmentReader\<close>

text \<open>
  \<^verbatim>\<open>FragmentReader\<close> of \<^verbatim>\<open>broker/client/reader.go\<close>. The wrapped decompressor
  \<^verbatim>\<open>fr.decomp\<close> is an \<^verbatim>\<open>io.ReadCloser\<close> of the environment: \<open>FragmentReader_Read\<close> takes
  the pair \<open>(n, err)\<close> that \<^verbatim>\<open>fr.decomp.Read(p)\<close> returned.
\<close>

record FragmentReader =
  fr_Fragment :: Fragment
  fr_Offset :: int64

definition FragmentReader_Read ::
  "FragmentReader \<Rightarrow> int64 \<times> error option \<Rightarrow> (int64 \<times> error option) \<times> FragmentReader" where
  "FragmentReader_Read fr res =
     (let n = fst res; err = snd res;
          fr1 = fr\<lparr>fr_Offset := fr_Offset fr + n\<rparr>
      in if frag_End (fr_Fragment fr1) <s fr_Offset fr1
         then ((n - (fr_Offset fr1 - frag_End (fr_Fragment fr1)), Some ErrDidNotReadExpectedEOF), fr1)
         else if err = Some EOF \<and> fr_Offset fr1 \<noteq> frag_End (fr_Fragment fr1)
         then ((n, Some ErrUnexpectedEOF), fr1)
         else ((n, err), fr1))"

text \<open>A fragment \<open>[0, 5)\<close> of journal \<^verbatim>\<open>a/journal\<close>, and a reader of it at offset 3.\<close>

definition frag_0_5 :: Fragment where
  "frag_0_5 = \<lparr>frag_Journal = ''a/journal'', frag_Begin = 0, frag_End = 5, frag_Sum = [],
     frag_CompressionCodec = NONE\<rparr>"

definition fr_at_3 :: FragmentReader where
  "fr_at_3 = \<lparr>fr_Fragment = frag_0_5, fr_Offset = 3\<rparr>"

section \<open>client: Reader\<close>

record ReadRequest =
  rq_Journal :: string
  rq_Offset :: int64
  rq_Block :: bool
  rq_DoNotProxy :: bool
  rq_MetadataOnly :: bool

record ReadResponse =
  rs_Status :: Status
  rs_Header :: "Header option"
  rs_Offset :: int64
  rs_WriteHead :: int64
  rs_Fragment :: "Fragment option"
  rs_FragmentUrl :: string
  rs_Content :: bytes

text \<open>
  The server stream \<^verbatim>\<open>pb.Journal_ReadClient\<close>: the frames that \<^verbatim>\<open>RecvMsg\<close> will still
  deliver, and the error with which the stream then ends (\<open>EOF\<close> for a graceful closure),
  which every later \<^verbatim>\<open>RecvMsg\<close> returns again.
\<close>

record Journal_ReadClient =
  st_frames :: "ReadResponse list"
  st_closure :: error

text \<open>
  The value of \<^verbatim>\<open>r.direct\<close>, an \<^verbatim>\<open>io.ReadCloser\<close> holding the \<^verbatim>\<open>*FragmentReader\<close> that
  \<^verbatim>\<open>OpenFragmentURL\<close> returned. An opened reader is a script: its \<open>k\<close>-th call of
  \<^verbatim>\<open>Read(p)\<close> returns \<open>dr_script k (length p)\<close>, the bytes written to the front of \<^verbatim>\<open>p\<close>
  and the error. A failed \<^verbatim>\<open>OpenFragmentURL\<close> stores its nil \<^verbatim>\<open>*FragmentReader\<close>, which is
  a non-nil interface value whose \<^verbatim>\<open>Read\<close> dereferences nil.
\<close>

record opened_reader =
  dr_script :: "nat \<Rightarrow> nat \<Rightarrow> bytes \<times> error option"
  dr_calls :: nat
  dr_closed :: bool

datatype direct_reader = Nil_FragmentReader | Opened opened_reader

record Reader =
  rd_Request :: ReadRequest
  rd_Response :: ReadResponse
  rd_stream :: "Journal_ReadClient option"
  rd_direct :: "direct_reader option"
  rd_routeUpdates :: "(string \<times> Route) list"

text \<open>
  What the Reader's collaborators answer: \<^verbatim>\<open>ctx.Err()\<close>, \<^verbatim>\<open>r.client.Read\<close>,
  \<^verbatim>\<open>pb.ReadResponse.Validate\<close> and \<^verbatim>\<open>OpenFragmentURL\<close> (code of other packages, or
  the network).
\<close>

record client_env =
  ce_ctx_Err :: "error option"
  ce_client_Read :: "error + Journal_ReadClient"
  ce_Validate :: "ReadResponse \<Rightarrow> error option"
  ce_OpenFragmentURL :: "Fragment \<Rightarrow> int64 \<Rightarrow> string \<Rightarrow> error + opened_reader"

text \<open>\<^verbatim>\<open>status.Code\<close> of gRPC, and \<^verbatim>\<open>mapGRPCCtxErr\<close>.\<close>

fun status_Code :: "error \<Rightarrow> grpc_code" where
  "status_Code (GRPCStatus c) = c"
| "status_Code _ = Code_Unknown"

definition mapGRPCCtxErr :: "error option \<Rightarrow> error \<Rightarrow> error" where
  "mapGRPCCtxErr ctxErr err =
     (if ctxErr = Some DeadlineExceeded \<and> status_Code err = Code_DeadlineExceeded then DeadlineExceeded
      else if ctxErr = Some Canceled \<and> status_Code err = Code_Canceled then Canceled
      else err)"

text \<open>Go's \<^verbatim>\<open>copy(p, src)\<close>: the number of bytes copied and the new contents of \<^verbatim>\<open>p\<close>.\<close>

definition go_copy :: "bytes \<Rightarrow> bytes \<Rightarrow> nat \<times> bytes" where
  "go_copy p src = (let n = min (length p) (length src) in (n, take n src @ drop n p))"

type_synonym read_result = "((nat \<times> error option) \<times> bytes \<times> Reader) outcome"

text \<open>The branch \<^verbatim>\<open>if r.direct != nil\<close>.\<close>

definition read_direct :: "Reader \<Rightarrow> direct_reader \<Rightarrow> bytes \<Rightarrow> read_result" where
  "read_direct r d p =
     (case d of
        Nil_FragmentReader \<Rightarrow> Panics ''nil pointer dereference''
      | Opened dr \<Rightarrow>
          (let res = dr_script dr (dr_calls dr) (length p);
               cp = go_copy p (fst res);
               dr1 = dr\<lparr>dr_calls := Suc (dr_calls dr)\<rparr>;
               dr2 = (if snd res \<noteq> None then dr1\<lparr>dr_closed := True\<rparr> else dr1);
               rq = rd_Request r
           in Returns ((fst cp, snd res), snd cp,
                r\<lparr>rd_direct := Some (Opened dr2),
                  rd_Request := rq\<lparr>rq_Offset := rq_Offset rq + of_nat (fst cp)\<rparr>\<rparr>)))"

text \<open>
  The test \<^verbatim>\<open>l != 0 && l > d\<close> for remaining content of the last response, with
  \<^verbatim>\<open>l = len(r.Response.Content)\<close> and \<^verbatim>\<open>d = int(r.Request.Offset - r.Response.Offset)\<close>.
\<close>

definition content_delta :: "Reader \<Rightarrow> int" where
  "content_delta r = sint (rq_Offset (rd_Request r) - rs_Offset (rd_Response r))"

definition has_remaining_content :: "Reader \<Rightarrow> bool" where
  "has_remaining_content r =
     (let l = int (length (rs_Content (rd_Response r)))
      in l \<noteq> 0 \<and> content_delta r < l)"

definition read_content :: "Reader \<Rightarrow> bytes \<Rightarrow> read_result" where
  "read_content r p =
     (let d = content_delta r
      in if d < 0 then Panics ''slice bounds out of range''
         else (let cp = go_copy p (drop (nat d) (rs_Content (rd_Response r)));
                   rq = rd_Request r
               in Returns ((fst cp, None), snd cp,
                    r\<lparr>rd_Request := rq\<lparr>rq_Offset := rq_Offset rq + of_nat (fst cp)\<rparr>\<rparr>)))"

text \<open>
  The block under \<^verbatim>\<open>if err == nil\<close> up to the test of the status: the route update and
  the offset jump. It returns the error so far with the updated Reader.
\<close>

definition accept_frame :: "Reader \<Rightarrow> error option \<times> Reader" where
  "accept_frame r =
     (let rs = rd_Response r; rq = rd_Request r;
          r1 = (case rs_Header rs of
                  None \<Rightarrow> r
                | Some h \<Rightarrow> r\<lparr>rd_routeUpdates := rd_routeUpdates r @ [(rq_Journal rq, hdr_Route h)]\<rparr>)
      in if rq_Offset rq <s rs_Offset rs
         then (Some ErrOffsetJump, r1\<lparr>rd_Request := rq\<lparr>rq_Offset := rs_Offset rs\<rparr>\<rparr>)
         else (None, r1))"

text \<open>The final \<^verbatim>\<open>switch r.Response.Status\<close> after a graceful closure.\<close>

definition closure_error :: "Status \<Rightarrow> error" where
  "closure_error st =
     (case st of
        Status_OK \<Rightarrow> EOF
      | Status_NOT_JOURNAL_BROKER \<Rightarrow> ErrNotJournalBroker
      | Status_OFFSET_NOT_YET_AVAILABLE \<Rightarrow> ErrOffsetNotYetAvailable
      | _ \<Rightarrow> StatusError st)"

text \<open>The measure of the recursion of \<^verbatim>\<open>Reader.Read\<close>.\<close>

definition frames_left :: "client_env \<Rightarrow> Reader \<Rightarrow> nat" where
  "frames_left E r =
     (case rd_direct r of
        Some _ \<Rightarrow> 0
      | None \<Rightarrow>
          (case rd_stream r of
             Some s \<Rightarrow> Suc (length (st_frames s))
           | None \<Rightarrow>
               (case ce_client_Read E of
                  Inl _ \<Rightarrow> 0
                | Inr s \<Rightarrow> Suc (Suc (length (st_frames s))))))"

text \<open>
  \<^verbatim>\<open>Reader.Read\<close>. The result is \<open>((n, err), p', r')\<close>: the returned pair, the
  buffer and the Reader after the call. The recursion of the source (after the lazy
  opening of the stream, after a frame whose status is not OK, after a fragment URL was
  opened) consumes \<open>frames_left\<close>.
\<close>

function Reader_Read :: "client_env \<Rightarrow> Reader \<Rightarrow> bytes \<Rightarrow> read_result" where
  "Reader_Read E r p =
     (case rd_direct r of
        Some d \<Rightarrow> read_direct r d p
      | None \<Rightarrow>
          if has_remaining_content r then read_content r p
          else
            (case rd_stream r of
               None \<Rightarrow>
                 (case ce_client_Read E of
                    Inr s \<Rightarrow> Reader_Read E (r\<lparr>rd_stream := Some s\<rparr>) p
                  | Inl e \<Rightarrow> Returns ((0, Some (mapGRPCCtxErr (ce_ctx_Err E) e)), p, r))
             | Some s \<Rightarrow>
                 (case st_frames s of
                    f # fs \<Rightarrow>
                      (let r1 = r\<lparr>rd_Response := f, rd_stream := Some (s\<lparr>st_frames := fs\<rparr>)\<rparr>
                       in case ce_Validate E f of
                            Some e \<Rightarrow> Returns ((0, Some (ExtendContext e ''ReadResponse'')), p, r1)
                          | None \<Rightarrow>
                              if rs_Status f = Status_OK \<and> rs_Offset f <s rq_Offset (rd_Request r1)
                              then Returns ((0, Some (ValidationError
                                     ''invalid ReadResponse offset (%d; expected >= %d)'')), p, r1)
                              else if rs_Status f = Status_OK
                              then Returns ((0, fst (accept_frame r1)), p, snd (accept_frame r1))
                              else Reader_Read E (snd (accept_frame r1)) p)
                  | [] \<Rightarrow>
                      (let err = mapGRPCCtxErr (ce_ctx_Err E) (st_closure s);
                           rs = rd_Response r
                       in if err \<noteq> EOF then Returns ((0, Some err), p, r)
                          else if \<not> rq_MetadataOnly (rd_Request r) \<and> rs_Status rs = Status_OK
                                  \<and> rs_FragmentUrl rs \<noteq> []
                          then (case rs_Fragment rs of
                                  None \<Rightarrow> Panics ''nil pointer dereference''
                                | Some fg \<Rightarrow>
                                    (case ce_OpenFragmentURL E fg (rq_Offset (rd_Request r))
                                            (rs_FragmentUrl rs) of
                                       Inr dr \<Rightarrow> Reader_Read E (r\<lparr>rd_direct := Some (Opened dr)\<rparr>) p
                                     | Inl e \<Rightarrow>
                                         Returns ((0, Some e), p,
                                           r\<lparr>rd_direct := Some Nil_FragmentReader\<rparr>)))
                          else Returns ((0, Some (closure_error (rs_Status rs))), p, r)))))"
  by pat_completeness auto
termination
  by (relation "measure (\<lambda>(E, r, p). frames_left E r)")
     (auto simp add: frames_left_def accept_frame_def Let_def split: option.splits)

declare Reader_Read.simps [simp del]

text \<open>
  The stream the next \<^verbatim>\<open>RecvMsg\<close> of a \<^verbatim>\<open>Read\<close> call reads from: the open one, or
  the one the lazy initialization opens.
\<close>

definition pending_stream :: "client_env \<Rightarrow> Reader \<Rightarrow> Journal_ReadClient option" where
  "pending_stream E r =
     (case rd_stream r of
        Some s \<Rightarrow> Some s
      | None \<Rightarrow> (case ce_client_Read E of Inr s \<Rightarrow> Some s | Inl _ \<Rightarrow> None))"

text \<open>
  The Reader after it has received the head frame of stream \<open>s\<close> and has run the
  route update and offset jump on it.
\<close>

definition jumped :: "Reader \<Rightarrow> Journal_ReadClient \<Rightarrow> Reader" where
  "jumped r s =
     snd (accept_frame (r\<lparr>rd_Response := hd (st_frames s),
       rd_stream := Some (s\<lparr>st_frames := tl (st_frames s)\<rparr>)\<rparr>))"

text \<open>A concrete broker: one content frame \<^verbatim>\<open>bing\<close> at offset 9, then a graceful closure.\<close>

definition frame_9 :: ReadResponse where
  "frame_9 = \<lparr>rs_Status = Status_OK, rs_Header = None, rs_Offset = 9, rs_WriteHead = 0,
     rs_Fragment = None, rs_FragmentUrl = [], rs_Content = [98, 105, 110, 103]\<rparr>"

definition stream_9 :: Journal_ReadClient where
  "stream_9 = \<lparr>st_frames = [frame_9], st_closure = EOF\<rparr>"

definition env_9 :: client_env where
  "env_9 = \<lparr>ce_ctx_Err = None, ce_client_Read = Inr stream_9, ce_Validate = (\<lambda>_. None),
     ce_OpenFragmentURL = (\<lambda>_ _ _. Inl (ErrorString ''no fragment store''))\<rparr>"

definition reader_at :: "int64 \<Rightarrow> Reader" where
  "reader_at off =
     \<lparr>rd_Request = \<lparr>rq_Journal = ''a/journal'', rq_Offset = off, rq_Block = False,
        rq_DoNotProxy = False, rq_MetadataOnly = False\<rparr>,
      rd_Response = \<lparr>rs_Status = Status_OK, rs_Header = None, rs_Offset = 0, rs_WriteHead = 0,
        rs_Fragment = None, rs_FragmentUrl = [], rs_Content = []\<rparr>,
      rd_stream = None, rd_direct = None, rd_routeUpdates = []\<rparr>"

section \<open>consumer: Resolver\<close>

text \<open>\<^verbatim>\<open>pc.Status\<close> of the consumer protocol.\<close>

datatype pc_Status =
    pc_Status_OK
  | pc_Status_SHARD_NOT_FOUND
  | pc_Status_NO_SHARD_PRIMARY
  | pc_Status_NOT_SHARD_PRIMARY
  | pc_Status_ETCD_TRANSACTION_FAILED

record ShardSpec =
  shard_Id :: string

text \<open>
  The mirror \<^verbatim>\<open>r.state.KS\<close> of the coordination store, as \<^verbatim>\<open>Resolve\<close> reads it under
  its read lock: the header, \<^verbatim>\<open>allocator.LookupItem\<close> as a map from shard ids to specs,
  and for each shard id the Route that \<^verbatim>\<open>Route.Init\<close> and \<^verbatim>\<open>AttachEndpoints\<close> (both of
  package \<^verbatim>\<open>protocol\<close>) derive from the shard's assignments.
\<close>

record KeySpace =
  ks_ClusterId :: "64 word"
  ks_Revision :: int64
  ks_Items :: "string \<rightharpoonup> ShardSpec"
  ks_Routes :: "string \<Rightarrow> Route"

text \<open>
  What the second \<^verbatim>\<open>select\<close> over \<^verbatim>\<open>replica.storeReadyCh\<close>, \<^verbatim>\<open>args.Context.Done()\<close>
  and \<^verbatim>\<open>replica.ctx.Done()\<close> picks.
\<close>

datatype store_wait = StoreReady | ArgsContextDone error | ReplicaContextDone error

record Replica =
  rep_storeReady :: bool
  rep_storeWait :: store_wait
  rep_wg :: nat

record Resolver =
  rsv_LocalMemberInd :: int
  rsv_Members :: "ProcessSpec_ID list"
  rsv_KS :: KeySpace
  rsv_replicas :: "(string \<rightharpoonup> Replica) option"
  rsv_WaitForRevision :: "int64 \<Rightarrow> error + KeySpace"

record ResolveArgs =
  args_ShardID :: string
  args_MayProxy :: bool
  args_ProxyHeader :: "Header option"

record Resolution =
  res_Status :: pc_Status
  res_Header :: Header
  res_Spec :: "ShardSpec option"
  res_Shard :: "Replica option"

text \<open>The zero value of the named result \<^verbatim>\<open>res\<close>.\<close>

definition Resolution_zero :: Resolution where
  "Resolution_zero =
     \<lparr>res_Status = pc_Status_OK,
      res_Header = \<lparr>hdr_ProcessId = ProcessSpec_ID_zero,
        hdr_Route = \<lparr>Members = [], Primary = 0\<rparr>,
        hdr_Etcd_ClusterId = 0, hdr_Etcd_Revision = 0\<rparr>,
      res_Spec = None, res_Shard = None\<rparr>"

text \<open>The local process id, or its placeholder during graceful shutdown.\<close>

definition localID_of :: "Resolver \<Rightarrow> ProcessSpec_ID outcome" where
  "localID_of r =
     (if rsv_LocalMemberInd r \<noteq> - 1
      then (if 0 \<le> rsv_LocalMemberInd r \<and> rsv_LocalMemberInd r < int (length (rsv_Members r))
            then Returns (rsv_Members r ! nat (rsv_LocalMemberInd r))
            else Panics ''index out of range'')
      else Returns \<lparr>Zone = ''local ConsumerSpec'', Suffix = ''missing from Etcd''\<rparr>)"

text \<open>
  The block \<^verbatim>\<open>if hdr := args.ProxyHeader; hdr != nil\<close>: an error, or the key space the
  resolution goes on with (the one \<^verbatim>\<open>WaitForRevision\<close> waited for, if it had to wait).
\<close>

definition check_ProxyHeader ::
  "Resolver \<Rightarrow> ProcessSpec_ID \<Rightarrow> Header option \<Rightarrow> error + KeySpace" where
  "check_ProxyHeader r localID hdr =
     (case hdr of
        None \<Rightarrow> Inr (rsv_KS r)
      | Some h \<Rightarrow>
          if hdr_Etcd_ClusterId h \<noteq> ks_ClusterId (rsv_KS r)
          then Inl (ErrorString ''proxied request Etcd ClusterId doesn't match our own (%d vs %d)'')
          else if hdr_ProcessId h \<noteq> localID
          then Inl (ErrorString ''proxied request ProcessId doesn't match our own (%s vs %s)'')
          else if ks_Revision (rsv_KS r) <s hdr_Etcd_Revision h
          then rsv_WaitForRevision r (hdr_Etcd_Revision h)
          else Inr (rsv_KS r))"

text \<open>The chain \<^verbatim>\<open>// Select a response Status code\<close>.\<close>

definition select_Status ::
  "ShardSpec option \<Rightarrow> ProcessSpec_ID \<Rightarrow> bool \<Rightarrow> ProcessSpec_ID \<Rightarrow> pc_Status" where
  "select_Status spec processId mayProxy localID =
     (if spec = None then pc_Status_SHARD_NOT_FOUND
      else if processId = ProcessSpec_ID_zero then pc_Status_NO_SHARD_PRIMARY
      else if \<not> mayProxy \<and> processId \<noteq> localID then pc_Status_NOT_SHARD_PRIMARY
      else pc_Status_OK)"

text \<open>The attachment of the local replica, from \<^verbatim>\<open>if r.replicas == nil\<close> on.\<close>

definition attach_replica ::
  "Resolver \<Rightarrow> string \<Rightarrow> Resolution \<Rightarrow> (Resolution \<times> error option) outcome" where
  "attach_replica r shardID res =
     (case rsv_replicas r of
        None \<Rightarrow> Returns (res, Some ErrResolverStopped)
      | Some m \<Rightarrow>
          (case m shardID of
             None \<Rightarrow> Panics ''expected replica for shard''
           | Some replica \<Rightarrow>
               (let attached = Returns (res\<lparr>res_Shard :=
                                 Some (replica\<lparr>rep_wg := Suc (rep_wg replica)\<rparr>)\<rparr>, None)
                in if rep_storeReady replica then attached
                   else (case rep_storeWait replica of
                           StoreReady \<Rightarrow> attached
                         | ArgsContextDone e \<Rightarrow> Returns (res, Some e)
                         | ReplicaContextDone e \<Rightarrow> Returns (res, Some e)))))"

text \<open>
  \<^verbatim>\<open>Resolver.Resolve\<close>: the pair of its named results \<^verbatim>\<open>(res, err)\<close>, or a panic.
\<close>

definition Resolve :: "Resolver \<Rightarrow> ResolveArgs \<Rightarrow> (Resolution \<times> error option) outcome" where
  "Resolve r args =
     (case localID_of r of
        Panics m \<Rightarrow> Panics m
      | BlocksForever \<Rightarrow> BlocksForever
      | Returns localID \<Rightarrow>
          (case check_ProxyHeader r localID (args_ProxyHeader args) of
             Inl e \<Rightarrow> Returns (Resolution_zero, Some e)
           | Inr ks \<Rightarrow>
               (let route = ks_Routes ks (args_ShardID args);
                    res1 = Resolution_zero\<lparr>
                      res_Header := (res_Header Resolution_zero)\<lparr>
                        hdr_Etcd_ClusterId := ks_ClusterId ks,
                        hdr_Etcd_Revision := ks_Revision ks,
                        hdr_Route := route\<rparr>,
                      res_Spec := ks_Items ks (args_ShardID args)\<rparr>
                in if Primary route \<noteq> - 1
                      \<and> \<not> (0 \<le> Primary route \<and> Primary route < int (length (Members route)))
                   then Panics ''index out of range''
                   else
                     (let res2 = (if Primary route \<noteq> - 1
                                  then res1\<lparr>res_Header := (res_Header res1)\<lparr>
                                         hdr_ProcessId := Members route ! nat (Primary route)\<rparr>\<rparr>
                                  else res1);
                          res3 = res2\<lparr>res_Status := select_Status (res_Spec res2)
                                   (hdr_ProcessId (res_Header res2)) (args_MayProxy args) localID\<rparr>
                      in if res_Status res3 \<noteq> pc_Status_OK
                         then Returns (res3\<lparr>res_Header := (res_Header res3)\<lparr>
                                hdr_ProcessId := localID\<rparr>\<rparr>, None)
                         else if hdr_ProcessId (res_Header res3) = localID
                         then attach_replica r (args_ShardID args) res3
                         else Returns (res3, None)))))"

text \<open>
  The status the resolution of shard \<open>sid\<close> is to have, in the order of the specification:
  no spec, no primary, primary elsewhere with proxying disallowed, OK.
\<close>

definition expected_Status :: "KeySpace \<Rightarrow> string \<Rightarrow> bool \<Rightarrow> ProcessSpec_ID \<Rightarrow> pc_Status" where
  "expected_Status ks sid mayProxy localID =
     (if ks_Items ks sid = None then pc_Status_SHARD_NOT_FOUND
      else if Primary (ks_Routes ks sid) = - 1 then pc_Status_NO_SHARD_PRIMARY
      else if \<not> mayProxy
              \<and> Members (ks_Routes ks sid) ! nat (Primary (ks_Routes ks sid)) \<noteq> localID
      then pc_Status_NOT_SHARD_PRIMARY
      else pc_Status_OK)"

text \<open>
  A route as \<^verbatim>\<open>Route.Init\<close> leaves it: the primary, if there is one, is the index of a
  member, and that member's id is not the zero \<^verbatim>\<open>ProcessSpec_ID\<close> (which never
  validates).
\<close>

definition route_ok :: "Route \<Rightarrow> bool" where
  "route_ok rt =
     (Primary rt = - 1
      \<or> (0 \<le> Primary rt \<and> Primary rt < int (length (Members rt))
          \<and> Members rt ! nat (Primary rt) \<noteq> ProcessSpec_ID_zero))"

text \<open>
  A consumer \<^verbatim>\<open>local/consumer-a\<close> whose key space knows the shard \<^verbatim>\<open>shard-1\<close>, assigned
  with the peer \<^verbatim>\<open>local/consumer-b\<close> as primary, and no spec and no assignment for
  any other shard.
\<close>

definition consumer_a :: ProcessSpec_ID where
  "consumer_a = \<lparr>Zone = ''local'', Suffix = ''consumer-a''\<rparr>"

definition consumer_b :: ProcessSpec_ID where
  "consumer_b = \<lparr>Zone = ''local'', Suffix = ''consumer-b''\<rparr>"

definition ks_1 :: KeySpace where
  "ks_1 = \<lparr>ks_ClusterId = 7, ks_Revision = 10,
     ks_Items = (\<lambda>sid. if sid = ''shard-1'' then Some \<lparr>shard_Id = ''shard-1''\<rparr> else None),
     ks_Routes = (\<lambda>sid. if sid = ''shard-1''
                    then \<lparr>Members = [consumer_b, consumer_a], Primary = 0\<rparr>
                    else \<lparr>Members = [], Primary = - 1\<rparr>)\<rparr>"

definition resolver_1 :: Resolver where
  "resolver_1 = \<lparr>rsv_LocalMemberInd = 0, rsv_Members = [consumer_a, consumer_b], rsv_KS = ks_1,
     rsv_replicas = Some Map.empty, rsv_WaitForRevision = (\<lambda>_. Inl Canceled)\<rparr>"

section \<open>broker: the append state machine\<close>

record AppendRequest =
  ar_Header :: "Header option"
  ar_Journal :: string
  ar_DoNotProxy :: bool
  ar_Offset :: int64
  ar_Content :: bytes

record ReplicateRequest =
  rr_Header :: "Header option"
  rr_Journal :: string
  rr_Proposal :: "Fragment option"
  rr_Content :: bytes
  rr_ContentDelta :: int64
  rr_Acknowledge :: bool

text \<open>
  The zero \<^verbatim>\<open>pb.ReplicateRequest\<close>, from which the composite literals of the source set
  the fields they name.
\<close>

definition ReplicateRequest_zero :: ReplicateRequest where
  "ReplicateRequest_zero =
     \<lparr>rr_Header = None, rr_Journal = [], rr_Proposal = None, rr_Content = [],
      rr_ContentDelta = 0, rr_Acknowledge = False\<rparr>"

text \<open>
  The resolved \<^verbatim>\<open>pb.JournalSpec\<close>, through the two methods the state machine calls on
  it, \<^verbatim>\<open>DesiredReplication()\<close> and \<^verbatim>\<open>Flags.MayWrite()\<close> (both of package \<^verbatim>\<open>protocol\<close>): their
  values.
\<close>

record JournalSpec =
  js_Name :: string
  js_DesiredReplication :: int
  js_MayWrite :: bool

text \<open>
  The \<^verbatim>\<open>resolution\<close> of the broker (declared in another file of the package): the fields the state machine
  reads, with the promoted \<^verbatim>\<open>Header\<close> fields by name, and the two calls on
  \<^verbatim>\<open>replica.index\<close> by what they return: the error of
  \<^verbatim>\<open>WaitForFirstRemoteRefresh(ctx)\<close> and the value of \<^verbatim>\<open>EndOffset()\<close>.
\<close>

record resolution =
  rsn_status :: Status
  rsn_ProcessId :: ProcessSpec_ID
  rsn_localID :: ProcessSpec_ID
  rsn_Route :: Route
  rsn_Etcd_Revision :: int64
  rsn_journalSpec :: JournalSpec
  rsn_index_WaitForFirstRemoteRefresh :: "error option"
  rsn_index_EndOffset :: int64

datatype appendState =
    stateResolve
  | stateAcquirePipeline
  | stateStartPipeline
  | stateSendPipelineSync
  | stateRecvPipelineSync
  | stateUpdateAssignments
  | stateAwaitDesiredReplicas
  | stateValidateOffset
  | stateStreamContent
  | stateReadAcknowledgements
  | stateError
  | stateProxy
  | stateFinished

text \<open>
  The \<^verbatim>\<open>pipeline\<close>, its spool and the protocol helpers are parts of the broker that are not
  modelled themselves. The state
  machine is modelled over any pipeline state \<open>'p\<close> and the operations it calls on it:
  operations that change the pipeline return the new state, \<^verbatim>\<open>barrier()\<close> returns its
  channels \<^verbatim>\<open>(waitFor, closeAfter)\<close> as well, \<^verbatim>\<open>gatherSync()\<close> its pair
  \<^verbatim>\<open>(rollToOffset, readThroughRev)\<close>. \<open>dp_spool_Fragment\<close> is
  \<^verbatim>\<open>pln.spool.Fragment.Fragment\<close>, whose fields Go promotes to \<^verbatim>\<open>pln.spool.End\<close>,
  \<^verbatim>\<open>pln.spool.Journal\<close> and \<^verbatim>\<open>pln.spool.CompressionCodec\<close>; \<open>dp_spool_Next\<close> is
  \<^verbatim>\<open>pln.spool.Next()\<close>; \<open>dp_nextProposal p roll spec\<close> is
  \<^verbatim>\<open>nextProposal(pln.spool, roll, spec.Fragment)\<close>.
\<close>

type_synonym chan = nat

record 'p deps =
  dp_scatter :: "ReplicateRequest \<Rightarrow> 'p \<Rightarrow> 'p"
  dp_sendErr :: "'p \<Rightarrow> error option"
  dp_recvErr :: "'p \<Rightarrow> error option"
  dp_gatherSync :: "'p \<Rightarrow> (int64 \<times> int64) \<times> 'p"
  dp_gatherOK :: "'p \<Rightarrow> 'p"
  dp_gatherEOF :: "'p \<Rightarrow> 'p"
  dp_closeSend :: "'p \<Rightarrow> 'p"
  dp_barrier :: "'p \<Rightarrow> (chan \<times> chan) \<times> 'p"
  dp_spool_Fragment :: "'p \<Rightarrow> Fragment"
  dp_spool_Next :: "'p \<Rightarrow> Fragment"
  dp_nextProposal :: "'p \<Rightarrow> int64 \<Rightarrow> JournalSpec \<Rightarrow> Fragment"
  dp_Validate :: "AppendRequest \<Rightarrow> error option"
  dp_SHA1 :: "bytes \<Rightarrow> bytes"

text \<open>
  What the state machine does to its collaborators, in order: each call on the pipeline
  with the pipeline state it was made on, and each channel operation.
\<close>

datatype 'p event =
    Ev_scatter 'p ReplicateRequest
  | Ev_gatherSync 'p
  | Ev_shutdown 'p bool
  | Ev_barrier 'p
  | Ev_closeSend 'p
  | Ev_send_plnReturnCh "'p option"
  | Ev_recv chan
  | Ev_gatherOK 'p
  | Ev_gatherEOF 'p
  | Ev_close chan

text \<open>
  \<^verbatim>\<open>appendFSM\<close>. \<open>fsm_plnReturnCh\<close> tells whether \<^verbatim>\<open>plnReturnCh\<close> is non-nil;
  \<open>fsm_clientSummer\<close> is the content written to the SHA-1 summer so far.
\<close>

record 'p appendFSM =
  fsm_req :: AppendRequest
  fsm_resolved :: resolution
  fsm_pln :: "'p option"
  fsm_plnReturnCh :: bool
  fsm_readThroughRev :: int64
  fsm_rollToOffset :: int64
  fsm_clientCommit :: bool
  fsm_clientFragment :: "Fragment option"
  fsm_clientSummer :: bytes
  fsm_state :: appendState
  fsm_err :: "error option"
  fsm_trace :: "'p event list"

definition emit :: "'p event list \<Rightarrow> 'p appendFSM \<Rightarrow> 'p appendFSM" where
  "emit evs b = b\<lparr>fsm_trace := fsm_trace b @ evs\<rparr>"

definition set_status :: "Status \<Rightarrow> 'p appendFSM \<Rightarrow> 'p appendFSM" where
  "set_status st b = b\<lparr>fsm_resolved := (fsm_resolved b)\<lparr>rsn_status := st\<rparr>\<rparr>"

text \<open>
  Every handler starts with \<^verbatim>\<open>b.mustState(s)\<close>, which panics in another state, and
  then dereferences \<^verbatim>\<open>b.pln\<close>, which panics when it is nil.
\<close>

definition with_pln ::
  "appendState \<Rightarrow> 'p appendFSM \<Rightarrow> ('p \<Rightarrow> 'p appendFSM outcome) \<Rightarrow> 'p appendFSM outcome" where
  "with_pln s b k =
     (if fsm_state b \<noteq> s then Panics ''unexpected appendFSM state''
      else (case fsm_pln b of None \<Rightarrow> Panics ''nil pointer dereference'' | Some p \<Rightarrow> k p))"

definition onRecvPipelineSync :: "'p deps \<Rightarrow> 'p appendFSM \<Rightarrow> 'p appendFSM outcome" where
  "onRecvPipelineSync D b =
     with_pln stateRecvPipelineSync b (\<lambda>p.
       let g = dp_gatherSync D p; p1 = snd g;
           b1 = emit [Ev_gatherSync p]
                  (b\<lparr>fsm_rollToOffset := fst (fst g), fsm_readThroughRev := snd (fst g),
                     fsm_pln := Some p1\<rparr>);
           err = (case dp_recvErr D p1 of Some e \<Rightarrow> Some e | None \<Rightarrow> dp_sendErr D p1)
       in if err \<noteq> None
          then Returns ((emit [Ev_shutdown p1 True] b1)\<lparr>fsm_pln := None,
                 fsm_err := errors_WithMessage err ''gatherSync'', fsm_state := stateError\<rparr>)
          else if fsm_rollToOffset b1 \<noteq> 0
          then Returns (b1\<lparr>fsm_err := None, fsm_state := stateSendPipelineSync\<rparr>)
          else if fsm_readThroughRev b1 \<noteq> 0
          then Returns ((emit [Ev_shutdown p1 False] b1)\<lparr>fsm_pln := None, fsm_err := None,
                 fsm_state := stateResolve\<rparr>)
          else Returns (b1\<lparr>fsm_err := None, fsm_state := stateUpdateAssignments\<rparr>))"

definition onAwaitDesiredReplicas :: "'p appendFSM \<Rightarrow> 'p appendFSM outcome" where
  "onAwaitDesiredReplicas b =
     (if fsm_state b \<noteq> stateAwaitDesiredReplicas then Panics ''unexpected appendFSM state''
      else (let n = int (length (Members (rsn_Route (fsm_resolved b))));
                d = js_DesiredReplication (rsn_journalSpec (fsm_resolved b))
            in if d < n
               then Returns (b\<lparr>fsm_readThroughRev := rsn_Etcd_Revision (fsm_resolved b) + 1,
                      fsm_state := stateResolve\<rparr>)
               else if n < d
               then Returns ((set_status Status_INSUFFICIENT_JOURNAL_BROKERS b)\<lparr>
                      fsm_state := stateError\<rparr>)
               else if rsn_ProcessId (fsm_resolved b) \<noteq> rsn_localID (fsm_resolved b)
               then Returns (b\<lparr>fsm_state := stateProxy\<rparr>)
               else Returns (b\<lparr>fsm_state := stateValidateOffset\<rparr>)))"

text \<open>The local \<^verbatim>\<open>maxOffset\<close> of \<^verbatim>\<open>onValidateOffset\<close>.\<close>

definition maxOffset :: "'p deps \<Rightarrow> 'p appendFSM \<Rightarrow> 'p \<Rightarrow> int64" where
  "maxOffset D b p =
     (let eo = rsn_index_EndOffset (fsm_resolved b)
      in if frag_End (dp_spool_Fragment D p) <s eo then eo else frag_End (dp_spool_Fragment D p))"

definition onValidateOffset :: "'p deps \<Rightarrow> 'p appendFSM \<Rightarrow> 'p appendFSM outcome" where
  "onValidateOffset D b =
     (if fsm_state b \<noteq> stateValidateOffset then Panics ''unexpected appendFSM state''
      else (case rsn_index_WaitForFirstRemoteRefresh (fsm_resolved b) of
              Some e \<Rightarrow> Returns (b\<lparr>fsm_err := Some (WithMessage e ''WaitForFirstRemoteRefresh''),
                          fsm_state := stateError\<rparr>)
            | None \<Rightarrow>
                (case fsm_pln b of
                   None \<Rightarrow> Panics ''nil pointer dereference''
                 | Some p \<Rightarrow>
                     (let b1 = b\<lparr>fsm_err := None\<rparr>;
                          spoolEnd = frag_End (dp_spool_Fragment D p);
                          reqOffset = ar_Offset (fsm_req b)
                      in if spoolEnd \<noteq> maxOffset D b p \<and> reqOffset = 0
                            \<and> js_MayWrite (rsn_journalSpec (fsm_resolved b))
                         then Returns ((set_status Status_INDEX_HAS_GREATER_OFFSET b1)\<lparr>
                                fsm_state := stateError\<rparr>)
                         else if reqOffset \<noteq> 0 \<and> reqOffset \<noteq> maxOffset D b p
                         then Returns ((set_status Status_WRONG_APPEND_OFFSET b1)\<lparr>
                                fsm_state := stateError\<rparr>)
                         else if reqOffset \<noteq> 0 \<and> spoolEnd \<noteq> maxOffset D b p
                         then Returns (b1\<lparr>fsm_rollToOffset := maxOffset D b p,
                                fsm_state := stateSendPipelineSync\<rparr>)
                         else Returns (b1\<lparr>fsm_state := stateStreamContent\<rparr>)))))"

text \<open>
  The first call of \<^verbatim>\<open>onStreamContent\<close> (the block under
  \<^verbatim>\<open>if b.clientFragment == nil\<close>): the roll-forward proposal, not acknowledged, and the
  client's fragment and summer. \<open>stream_pln\<close> is the pipeline after it.
\<close>

definition stream_pln :: "'p deps \<Rightarrow> 'p appendFSM \<Rightarrow> 'p \<Rightarrow> 'p" where
  "stream_pln D b p =
     (let proposal = dp_nextProposal D p 0 (rsn_journalSpec (fsm_resolved b))
      in if fsm_clientFragment b = None \<and> dp_spool_Fragment D p \<noteq> proposal
         then dp_scatter D (ReplicateRequest_zero\<lparr>rr_Proposal := Some proposal,
                rr_Acknowledge := False\<rparr>) p
         else p)"

definition streamInit :: "'p deps \<Rightarrow> 'p appendFSM \<Rightarrow> 'p \<Rightarrow> 'p appendFSM" where
  "streamInit D b p =
     (if fsm_clientFragment b \<noteq> None then b
      else (let proposal = dp_nextProposal D p 0 (rsn_journalSpec (fsm_resolved b));
                p1 = stream_pln D b p;
                b1 = (if dp_spool_Fragment D p \<noteq> proposal
                      then emit [Ev_scatter p (ReplicateRequest_zero\<lparr>rr_Proposal := Some proposal,
                             rr_Acknowledge := False\<rparr>)] b
                      else b)
            in b1\<lparr>fsm_pln := Some p1,
                 fsm_clientFragment := Some
                   \<lparr>frag_Journal = frag_Journal (dp_spool_Fragment D p1),
                    frag_Begin = frag_End (dp_spool_Fragment D p1),
                    frag_End = frag_End (dp_spool_Fragment D p1),
                    frag_Sum = [],
                    frag_CompressionCodec = frag_CompressionCodec (dp_spool_Fragment D p1)\<rparr>,
                 fsm_clientSummer := []\<rparr>))"

text \<open>
  The end of \<^verbatim>\<open>onStreamContent\<close>, from
  \<^verbatim>\<open>// We've errored, or reached end-of-input for this Append stream\<close>: \<open>p\<close> is the
  pipeline and \<open>err\<close> the local \<^verbatim>\<open>err\<close> at that point.
\<close>

definition finishStream ::
  "'p deps \<Rightarrow> 'p appendFSM \<Rightarrow> 'p \<Rightarrow> error option \<Rightarrow> 'p appendFSM outcome" where
  "finishStream D b p err =
     (let b1 = b\<lparr>fsm_clientFragment :=
                 map_option (\<lambda>f. f\<lparr>frag_Sum := dp_SHA1 D (fsm_clientSummer b)\<rparr>)
                   (fsm_clientFragment b)\<rparr>;
          commit = (err = Some EOF \<and> dp_sendErr D p = None
                    \<and> rsn_status (fsm_resolved b) = Status_OK);
          req = ReplicateRequest_zero\<lparr>
                  rr_Proposal := Some (if commit then dp_spool_Next D p else dp_spool_Fragment D p),
                  rr_Acknowledge := True\<rparr>;
          b2 = (if commit then b1 else b1\<lparr>fsm_err := errors_Wrap err ''append stream''\<rparr>)
      in if commit \<and> \<not> fsm_clientCommit b then Panics ''invariant violated: reqCommit = true''
         else Returns ((emit [Ev_scatter p req] b2)\<lparr>fsm_pln := Some (dp_scatter D req p),
                fsm_state := stateReadAcknowledgements\<rparr>))"

text \<open>
  The request that ends an append stream: the commit proposal \<^verbatim>\<open>pln.spool.Next()\<close>, or
  the rollback proposal \<^verbatim>\<open>pln.spool.Fragment.Fragment\<close>, to be acknowledged.
\<close>

definition final_req :: "'p deps \<Rightarrow> bool \<Rightarrow> 'p \<Rightarrow> ReplicateRequest" where
  "final_req D commit q =
     ReplicateRequest_zero\<lparr>
       rr_Proposal := Some (if commit then dp_spool_Next D q else dp_spool_Fragment D q),
       rr_Acknowledge := True\<rparr>"

text \<open>
  The local \<^verbatim>\<open>err\<close> after \<^verbatim>\<open>// Ensure |req| is a valid content chunk\<close>; a nil
  \<^verbatim>\<open>req\<close> with a nil \<^verbatim>\<open>err\<close> panics in \<^verbatim>\<open>req.Validate()\<close>.
\<close>

definition chunk_error ::
  "'p deps \<Rightarrow> AppendRequest option \<Rightarrow> error option \<Rightarrow> (error option) outcome" where
  "chunk_error D req err =
     (case err of
        Some e \<Rightarrow> Returns (Some e)
      | None \<Rightarrow>
          (case req of
             None \<Rightarrow> Panics ''nil pointer dereference''
           | Some rq \<Rightarrow>
               (case dp_Validate D rq of
                  Some e \<Rightarrow> Returns (Some e)
                | None \<Rightarrow>
                    if ar_Journal rq \<noteq> [] then Returns (Some errExpectedContentChunk)
                    else Returns None)))"

text \<open>
  The branch \<^verbatim>\<open>// Regular content chunk. Forward it through the pipeline\<close>: the
  request it scatters, and the state machine after it.
\<close>

definition content_req :: "'p appendFSM \<Rightarrow> bytes \<Rightarrow> ReplicateRequest" where
  "content_req b content =
     ReplicateRequest_zero\<lparr>rr_Content := content,
       rr_ContentDelta := (case fsm_clientFragment b of Some f \<Rightarrow> ContentLength f | None \<Rightarrow> 0)\<rparr>"

definition forward_content :: "'p deps \<Rightarrow> 'p appendFSM \<Rightarrow> 'p \<Rightarrow> bytes \<Rightarrow> 'p appendFSM" where
  "forward_content D b p content =
     (emit [Ev_scatter p (content_req b content)] b)\<lparr>
        fsm_pln := Some (dp_scatter D (content_req b content) p),
        fsm_clientSummer := fsm_clientSummer b @ content,
        fsm_clientFragment :=
          map_option (\<lambda>f. f\<lparr>frag_End := frag_End f + of_nat (length content)\<rparr>)
            (fsm_clientFragment b)\<rparr>"

text \<open>
  \<^verbatim>\<open>onStreamContent(req, err)\<close>, called with each chunk or error of the client stream
  and with the injected \<^verbatim>\<open>context.DeadlineExceeded\<close>.
\<close>

definition onStreamContent ::
  "'p deps \<Rightarrow> 'p appendFSM \<Rightarrow> AppendRequest option \<Rightarrow> error option \<Rightarrow> 'p appendFSM outcome" where
  "onStreamContent D b req err0 =
     with_pln stateStreamContent b (\<lambda>p0.
       let b1 = streamInit D b p0; p = stream_pln D b p0;
           content = (case req of Some rq \<Rightarrow> ar_Content rq | None \<Rightarrow> [])
       in case chunk_error D req err0 of
            Panics m \<Rightarrow> Panics m
          | BlocksForever \<Rightarrow> BlocksForever
          | Returns err \<Rightarrow>
              if err = Some EOF \<and> \<not> fsm_clientCommit b1
              then finishStream D b1 p (Some ErrUnexpectedEOF)
              else if err = None \<and> fsm_clientCommit b1
              then finishStream D b1 p (Some errExpectedEOF)
              else if err = None \<and> content = []
              then Returns (b1\<lparr>fsm_clientCommit := True\<rparr>)
              else if err = None \<and> \<not> js_MayWrite (rsn_journalSpec (fsm_resolved b1))
              then finishStream D (set_status Status_NOT_ALLOWED b1) p err
              else if err = None
              then (if dp_sendErr D (dp_scatter D (content_req b1 content) p) = None
                    then Returns (forward_content D b1 p content)
                    else finishStream D (forward_content D b1 p content)
                           (dp_scatter D (content_req b1 content) p) err)
              else finishStream D b1 p err)"

text \<open>
  The loop of \<^verbatim>\<open>run\<close> over chunks and timer ticks, \<^verbatim>\<open>for b.state == stateStreamContent\<close>.
  The \<^verbatim>\<open>select\<close> takes what the chunk channel and the ticker deliver, in the order
  given by the list; \<open>sawChunk\<close> is the local variable of that name. The result is the
  state machine and \<open>sawChunk\<close> when the loop has left \<open>stateStreamContent\<close>, or when
  the list is used up and the \<^verbatim>\<open>select\<close> waits for more.
\<close>

datatype select_event = Chunk "AppendRequest option" "error option" | Tick

fun streamLoop ::
  "'p deps \<Rightarrow> 'p appendFSM \<Rightarrow> bool \<Rightarrow> select_event list \<Rightarrow> ('p appendFSM \<times> bool) outcome" where
  "streamLoop D b sawChunk [] = Returns (b, sawChunk)"
| "streamLoop D b sawChunk (ev # evs) =
     (if fsm_state b \<noteq> stateStreamContent then Returns (b, sawChunk)
      else (case ev of
              Chunk req err \<Rightarrow>
                (case onStreamContent D b req err of
                   Returns b' \<Rightarrow> streamLoop D b' True evs
                 | Panics m \<Rightarrow> Panics m
                 | BlocksForever \<Rightarrow> BlocksForever)
            | Tick \<Rightarrow>
                if \<not> sawChunk
                then (case onStreamContent D b None (Some DeadlineExceeded) of
                        Returns b' \<Rightarrow> streamLoop D b' False evs
                      | Panics m \<Rightarrow> Panics m
                      | BlocksForever \<Rightarrow> BlocksForever)
                else streamLoop D b False evs))"

text \<open>
  The same stream of chunks fed to \<^verbatim>\<open>onStreamContent\<close> with no timer at all, for
  comparison.
\<close>

fun feedChunks :: "'p deps \<Rightarrow> 'p appendFSM \<Rightarrow> select_event list \<Rightarrow> 'p appendFSM outcome" where
  "feedChunks D b [] = Returns b"
| "feedChunks D b (Tick # evs) = feedChunks D b evs"
| "feedChunks D b (Chunk req err # evs) =
     (if fsm_state b \<noteq> stateStreamContent then Returns b
      else (case onStreamContent D b req err of
              Returns b' \<Rightarrow> feedChunks D b' evs
            | Panics m \<Rightarrow> Panics m
            | BlocksForever \<Rightarrow> BlocksForever))"

text \<open>
  A chunk was delivered in every tick period: before each tick, since the tick before it or
  (with \<open>sawChunk\<close> false) since the loop began.
\<close>

fun chunk_every_period :: "bool \<Rightarrow> select_event list \<Rightarrow> bool" where
  "chunk_every_period sawChunk [] = True"
| "chunk_every_period sawChunk (Chunk req err # evs) = chunk_every_period True evs"
| "chunk_every_period sawChunk (Tick # evs) = (sawChunk \<and> chunk_every_period False evs)"

text \<open>
  \<^verbatim>\<open>onReadAcknowledgements\<close>. A send on the nil \<^verbatim>\<open>plnReturnCh\<close> blocks forever; the
  mailbox itself, of capacity one and emptied by this owner, takes the send at once. The
  receive from \<^verbatim>\<open>waitFor\<close> is recorded when it has happened, the deferred
  \<^verbatim>\<open>close(closeAfter)\<close> last.
\<close>

definition onReadAcknowledgements :: "'p deps \<Rightarrow> 'p appendFSM \<Rightarrow> 'p appendFSM outcome" where
  "onReadAcknowledgements D b =
     with_pln stateReadAcknowledgements b (\<lambda>p.
       let sendErr = dp_sendErr D p;
           waitFor = fst (fst (dp_barrier D p));
           closeAfter = snd (fst (dp_barrier D p));
           p1 = snd (dp_barrier D p);
           p2 = (if sendErr = None then p1 else dp_closeSend D p1);
           p3 = dp_gatherOK D p2;
           p4 = (if sendErr \<noteq> None then dp_gatherEOF D p3 else p3);
           b1 = (emit ([Ev_barrier p]
                   @ (if sendErr = None then [Ev_send_plnReturnCh (Some p1)]
                      else [Ev_closeSend p1, Ev_send_plnReturnCh None])
                   @ [Ev_recv waitFor, Ev_gatherOK p2]
                   @ (if sendErr \<noteq> None then [Ev_gatherEOF p3] else [])) b)\<lparr>
                  fsm_pln := Some p4, fsm_plnReturnCh := False\<rparr>;
           b2 = (if fsm_err b \<noteq> None \<or> rsn_status (fsm_resolved b) \<noteq> Status_OK
                 then b1\<lparr>fsm_state := stateError\<rparr>
                 else if dp_recvErr D p4 \<noteq> None
                 then b1\<lparr>fsm_err := dp_recvErr D p4, fsm_state := stateError\<rparr>
                 else if sendErr \<noteq> None
                 then b1\<lparr>fsm_err := sendErr, fsm_state := stateError\<rparr>
                 else b1\<lparr>fsm_err := None, fsm_state := stateFinished\<rparr>)
       in if \<not> fsm_plnReturnCh b then BlocksForever
          else Returns (emit [Ev_close closeAfter] b2))"

text \<open>The state machine of a loop result, dropping \<open>sawChunk\<close>.\<close>

definition fst_outcome :: "('a \<times> 'b) outcome \<Rightarrow> 'a outcome" where
  "fst_outcome r = (case r of Returns x \<Rightarrow> Returns (fst x) | Panics m \<Rightarrow> Panics m
     | BlocksForever \<Rightarrow> BlocksForever)"

text \<open>
  The events of the first call of \<^verbatim>\<open>onStreamContent\<close>: the scatter of the roll-forward
  proposal, not to be acknowledged, when the spool's fragment differs from it.
\<close>

definition init_events :: "'p deps \<Rightarrow> 'p appendFSM \<Rightarrow> 'p \<Rightarrow> 'p event list" where
  "init_events D b p =
     (let proposal = dp_nextProposal D p 0 (rsn_journalSpec (fsm_resolved b))
      in if fsm_clientFragment b = None \<and> dp_spool_Fragment D p \<noteq> proposal
         then [Ev_scatter p (ReplicateRequest_zero\<lparr>rr_Proposal := Some proposal,
                 rr_Acknowledge := False\<rparr>)]
         else [])"

text \<open>
  A call has ended the append stream: it returned in \<^verbatim>\<open>readAcknowledgements\<close>, having
  done \<open>pre\<close> and then, last, scattered on pipeline \<open>q\<close> the commit proposal
  (\<open>commit\<close>) or the rollback proposal to be acknowledged, with \<^verbatim>\<open>clientCommit\<close>
  untouched, \<^verbatim>\<open>b.err\<close> being \<open>e\<close> and the resolved status \<open>st\<close>.
\<close>

definition ends_stream ::
  "'p deps \<Rightarrow> 'p appendFSM \<Rightarrow> 'p event list \<Rightarrow> 'p \<Rightarrow> bool \<Rightarrow> error option \<Rightarrow> Status
     \<Rightarrow> 'p appendFSM outcome \<Rightarrow> bool" where
  "ends_stream D b pre q commit e st r =
     (case r of
        Returns b' \<Rightarrow>
          fsm_state b' = stateReadAcknowledgements
          \<and> fsm_trace b' = fsm_trace b @ pre @ [Ev_scatter q (final_req D commit q)]
          \<and> fsm_pln b' = Some (dp_scatter D (final_req D commit q) q)
          \<and> fsm_clientCommit b' = fsm_clientCommit b
          \<and> fsm_err b' = e
          \<and> rsn_status (fsm_resolved b') = st
      | Panics m \<Rightarrow> False
      | BlocksForever \<Rightarrow> False)"

text \<open>The event is the scatter of a request that asks for acknowledgement.\<close>

definition acknowledged :: "'p event \<Rightarrow> bool" where
  "acknowledged ev = (case ev of Ev_scatter q r \<Rightarrow> rr_Acknowledge r | _ \<Rightarrow> False)"

section \<open>A pipeline without peers\<close>

text \<open>
  A concrete pipeline for evaluating the state machine: the local spool alone. A scattered
  proposal becomes the spool's fragment and drops the uncommitted content, scattered
  content is buffered, \<^verbatim>\<open>Next()\<close> extends the fragment by the buffered content. The
  errors and the answer of \<^verbatim>\<open>gatherSync()\<close> are fields, \<^verbatim>\<open>barrier()\<close> numbers its
  channels, and no digest is computed.
\<close>

record spool_pln =
  sp_Fragment :: Fragment
  sp_delta :: bytes
  sp_sendErr :: "error option"
  sp_recvErr :: "error option"
  sp_sync :: "int64 \<times> int64"
  sp_barriers :: nat

definition spool_deps :: "spool_pln deps" where
  "spool_deps =
     \<lparr>dp_scatter = (\<lambda>req p. case rr_Proposal req of
                        Some f \<Rightarrow> p\<lparr>sp_Fragment := f, sp_delta := []\<rparr>
                      | None \<Rightarrow> p\<lparr>sp_delta := sp_delta p @ rr_Content req\<rparr>),
      dp_sendErr = sp_sendErr,
      dp_recvErr = sp_recvErr,
      dp_gatherSync = (\<lambda>p. (sp_sync p, p)),
      dp_gatherOK = (\<lambda>p. p),
      dp_gatherEOF = (\<lambda>p. p),
      dp_closeSend = (\<lambda>p. p),
      dp_barrier = (\<lambda>p. ((sp_barriers p, Suc (sp_barriers p)),
                         p\<lparr>sp_barriers := Suc (sp_barriers p)\<rparr>)),
      dp_spool_Fragment = sp_Fragment,
      dp_spool_Next = (\<lambda>p. (sp_Fragment p)\<lparr>frag_End :=
                         frag_End (sp_Fragment p) + of_nat (length (sp_delta p))\<rparr>),
      dp_nextProposal = (\<lambda>p roll spec. if roll = 0 then sp_Fragment p
                         else (sp_Fragment p)\<lparr>frag_Begin := roll, frag_End := roll\<rparr>),
      dp_Validate = (\<lambda>_. None),
      dp_SHA1 = (\<lambda>_. [])\<rparr>"

text \<open>
  The spool of \<^verbatim>\<open>a/journal\<close> at the fragment \<open>[0, 5)\<close>, and an append to it by the
  primary \<^verbatim>\<open>local/broker\<close> of a journal of replication 1.
\<close>

definition pln_5 :: spool_pln where
  "pln_5 = \<lparr>sp_Fragment = frag_0_5, sp_delta = [], sp_sendErr = None, sp_recvErr = None,
     sp_sync = (0, 0), sp_barriers = 0\<rparr>"

definition broker_id :: ProcessSpec_ID where
  "broker_id = \<lparr>Zone = ''local'', Suffix = ''broker''\<rparr>"

definition resolution_1 :: resolution where
  "resolution_1 =
     \<lparr>rsn_status = Status_OK, rsn_ProcessId = broker_id, rsn_localID = broker_id,
      rsn_Route = \<lparr>Members = [broker_id], Primary = 0\<rparr>,
      rsn_Etcd_Revision = 10,
      rsn_journalSpec = \<lparr>js_Name = ''a/journal'', js_DesiredReplication = 1, js_MayWrite = True\<rparr>,
      rsn_index_WaitForFirstRemoteRefresh = None,
      rsn_index_EndOffset = 5\<rparr>"

definition fsm_at :: "appendState \<Rightarrow> spool_pln \<Rightarrow> spool_pln appendFSM" where
  "fsm_at s p =
     \<lparr>fsm_req = \<lparr>ar_Header = None, ar_Journal = ''a/journal'', ar_DoNotProxy = False,
        ar_Offset = 0, ar_Content = []\<rparr>,
      fsm_resolved = resolution_1,
      fsm_pln = Some p,
      fsm_plnReturnCh = True,
      fsm_readThroughRev = 0,
      fsm_rollToOffset = 0,
      fsm_clientCommit = False,
      fsm_clientFragment = None,
      fsm_clientSummer = [],
      fsm_state = s,
      fsm_err = None,
      fsm_trace = []\<rparr>"

text \<open>A content chunk of the client, and the content \<^verbatim>\<open>hello\<close>.\<close>

definition chunk_of :: "bytes \<Rightarrow> select_event" where
  "chunk_of content = Chunk (Some \<lparr>ar_Header = None, ar_Journal = [], ar_DoNotProxy = False,
     ar_Offset = 0, ar_Content = content\<rparr>) None"

definition hello :: bytes where
  "hello = [104, 101, 108, 108, 111]"

text \<open>
  The spool at \<open>[0, 5)\<close> holding the five uncommitted bytes \<^verbatim>\<open>hello\<close>, so that its
  \<^verbatim>\<open>Next()\<close> is \<open>[0, 10)\<close>; and the request of a content chunk.
\<close>

definition pln_hello :: spool_pln where
  "pln_hello = pln_5\<lparr>sp_delta := hello\<rparr>"

definition chunk_req :: "bytes \<Rightarrow> AppendRequest" where
  "chunk_req content = \<lparr>ar_Header = None, ar_Journal = [], ar_DoNotProxy = False,
     ar_Offset = 0, ar_Content = content\<rparr>"

section \<open>Theorems\<close>

subsection \<open>FragmentReader.Read\<close>

lemma FragmentReader_Read_Offset:
  "fr_Offset (snd (FragmentReader_Read fr (n, err))) = fr_Offset fr + n"
  by (simp add: FragmentReader_Read_def Let_def)

lemma FragmentReader_Read_EOF_iff:
  "snd (fst (FragmentReader_Read fr (n, err))) = Some EOF \<longleftrightarrow>
     err = Some EOF \<and> fr_Offset fr + n = frag_End (fr_Fragment fr)"
  by (auto simp add: FragmentReader_Read_def Let_def)

lemma FragmentReader_Read_short:
  "err = Some EOF \<Longrightarrow> fr_Offset fr + n <s frag_End (fr_Fragment fr) \<Longrightarrow>
     snd (fst (FragmentReader_Read fr (n, err))) = Some ErrUnexpectedEOF"
  by (auto simp add: FragmentReader_Read_def Let_def word_sless_alt)

lemma FragmentReader_Read_long:
  "frag_End (fr_Fragment fr) <s fr_Offset fr + n \<Longrightarrow>
     fst (FragmentReader_Read fr (n, err)) =
       (n - (fr_Offset fr + n - frag_End (fr_Fragment fr)), Some ErrDidNotReadExpectedEOF)"
  by (simp add: FragmentReader_Read_def Let_def)

text \<open>
  C9. The specification has it that after every call of \<^verbatim>\<open>FragmentReader.Read\<close> the reader's Offset is at
  most Fragment.End, an over-long source being truncated so that Offset stops at End with
  ErrDidNotReadExpectedEOF. On the code this fails: the reader at offset 3 of the fragment
  \<open>[0, 5)\<close> whose source returns 4 bytes reports \<open>n = 2\<close> and ErrDidNotReadExpectedEOF, but
  its Offset is left at 7, beyond End = 5. Only the returned count is cut back.
\<close>

theorem C9_Read_leaves_Offset_beyond_End:
  "FragmentReader_Read fr_at_3 (4, None) =
     ((2, Some ErrDidNotReadExpectedEOF), fr_at_3\<lparr>fr_Offset := 7\<rparr>)
   \<and> frag_End (fr_Fragment fr_at_3) <s fr_Offset (snd (FragmentReader_Read fr_at_3 (4, None)))"
  by (simp add: FragmentReader_Read_def fr_at_3_def frag_0_5_def Let_def)
subsection \<open>Reader.Read\<close>

lemma Reader_Read_lazy_init:
  assumes "rd_direct r = None" "\<not> has_remaining_content r" "pending_stream E r = Some s"
  shows "Reader_Read E r p = Reader_Read E (r\<lparr>rd_stream := Some s\<rparr>) p"
proof (cases "rd_stream r")
  case None
  with assms show ?thesis
    by (subst Reader_Read.simps) (simp add: pending_stream_def split: sum.splits)
next
  case (Some s')
  with assms have "r\<lparr>rd_stream := Some s\<rparr> = r" by (simp add: pending_stream_def)
  then show ?thesis by simp
qed

lemma has_remaining_content_stream [simp]:
  "has_remaining_content (r\<lparr>rd_stream := x\<rparr>) = has_remaining_content r"
  by (simp add: has_remaining_content_def content_delta_def)

lemma Reader_Read_frame_OK:
  assumes "rd_direct r = None" "\<not> has_remaining_content r" "pending_stream E r = Some s"
    "st_frames s = f # fs" "ce_Validate E f = None" "rs_Status f = Status_OK"
  shows "Reader_Read E r p =
     (let r1 = r\<lparr>rd_Response := f, rd_stream := Some (s\<lparr>st_frames := fs\<rparr>)\<rparr>
      in if rs_Offset f <s rq_Offset (rd_Request r)
         then Returns ((0, Some (ValidationError
                ''invalid ReadResponse offset (%d; expected >= %d)'')), p, r1)
         else Returns ((0, fst (accept_frame r1)), p, snd (accept_frame r1)))"
  using assms
  by (subst Reader_Read_lazy_init [OF assms(1-3)], subst Reader_Read.simps)
     (simp add: Let_def)


lemma Reader_Read_content:
  assumes "rd_direct r = None" "has_remaining_content r" "0 \<le> content_delta r"
  shows "Reader_Read E r q =
     Returns ((fst (go_copy q (drop (nat (content_delta r)) (rs_Content (rd_Response r)))), None),
       snd (go_copy q (drop (nat (content_delta r)) (rs_Content (rd_Response r)))),
       r\<lparr>rd_Request := (rd_Request r)\<lparr>rq_Offset := rq_Offset (rd_Request r)
          + of_nat (fst (go_copy q (drop (nat (content_delta r)) (rs_Content (rd_Response r)))))\<rparr>\<rparr>)"
  using assms by (subst Reader_Read.simps) (simp add: read_content_def Let_def)

text \<open>
  C10. A call of \<^verbatim>\<open>Reader.Read\<close> that receives (from the open stream, or from the
  stream it lazily opens) a frame that validates and has Status OK: if the frame's offset is
  below the requested offset the call returns the validation error and leaves the requested
  offset as it was; if the frame's offset is above it the call returns \<open>ErrOffsetJump\<close> with
  zero bytes and the buffer untouched, the requested offset is now the frame's, and the
  Reader goes on working: the stream is still open at the next frame, and the next call
  either hands out the frame's content from the updated offset or, when the frame has no
  content, reads the following frame at that offset without error.
\<close>

theorem C10_Read_offset_regression_and_jump:
  assumes "rd_direct r = None" and "\<not> has_remaining_content r"
    and "pending_stream E r = Some s" and "st_frames s = f # fs"
    and "ce_Validate E f = None" and "rs_Status f = Status_OK"
  shows "(rs_Offset f <s rq_Offset (rd_Request r) \<longrightarrow>
            (\<exists>r'. Reader_Read E r p = Returns ((0, Some (ValidationError
                ''invalid ReadResponse offset (%d; expected >= %d)'')), p, r')
              \<and> rq_Offset (rd_Request r') = rq_Offset (rd_Request r)))
       \<and> (rq_Offset (rd_Request r) <s rs_Offset f \<longrightarrow>
            Reader_Read E r p = Returns ((0, Some ErrOffsetJump), p, jumped r s)
          \<and> rq_Offset (rd_Request (jumped r s)) = rs_Offset f
          \<and> rd_Response (jumped r s) = f
          \<and> rd_stream (jumped r s) = Some (s\<lparr>st_frames := fs\<rparr>)
          \<and> rd_direct (jumped r s) = None
          \<and> (rs_Content f \<noteq> [] \<longrightarrow>
                Reader_Read E (jumped r s) q =
                  Returns ((min (length q) (length (rs_Content f)), None),
                    take (length q) (rs_Content f) @ drop (length (rs_Content f)) q,
                    (jumped r s)\<lparr>rd_Request := (rd_Request (jumped r s))\<lparr>rq_Offset :=
                       rs_Offset f + of_nat (min (length q) (length (rs_Content f)))\<rparr>\<rparr>))
          \<and> (rs_Content f = [] \<longrightarrow>
                (\<forall>g gs. fs = g # gs \<and> ce_Validate E g = None \<and> rs_Status g = Status_OK
                    \<and> rs_Offset g = rs_Offset f \<longrightarrow>
                  (\<exists>r''. Reader_Read E (jumped r s) q = Returns ((0, None), q, r'')
                     \<and> rd_Response r'' = g
                     \<and> rq_Offset (rd_Request r'') = rs_Offset f))))"
proof (intro conjI impI)
  note frame = Reader_Read_frame_OK [OF assms, of p]
  show "\<exists>r'. Reader_Read E r p = Returns ((0, Some (ValidationError
                ''invalid ReadResponse offset (%d; expected >= %d)'')), p, r')
              \<and> rq_Offset (rd_Request r') = rq_Offset (rd_Request r)"
    if "rs_Offset f <s rq_Offset (rd_Request r)"
    using that frame by (simp add: Let_def)
  assume jump: "rq_Offset (rd_Request r) <s rs_Offset f"
  then have nreg: "\<not> rs_Offset f <s rq_Offset (rd_Request r)"
    by (simp add: word_sless_alt)
  have j: "jumped r s = snd (accept_frame (r\<lparr>rd_Response := f,
       rd_stream := Some (s\<lparr>st_frames := fs\<rparr>)\<rparr>))"
    using assms(4) by (simp add: jumped_def)
  show "Reader_Read E r p = Returns ((0, Some ErrOffsetJump), p, jumped r s)"
    using frame nreg jump by (simp add: Let_def j accept_frame_def split: option.splits)
  show off: "rq_Offset (rd_Request (jumped r s)) = rs_Offset f"
    using jump by (simp add: j accept_frame_def Let_def split: option.splits)
  show resp: "rd_Response (jumped r s) = f"
    using jump by (simp add: j accept_frame_def Let_def split: option.splits)
  show str: "rd_stream (jumped r s) = Some (s\<lparr>st_frames := fs\<rparr>)"
    using jump by (simp add: j accept_frame_def Let_def split: option.splits)
  show dir: "rd_direct (jumped r s) = None"
    using jump assms(1) by (simp add: j accept_frame_def Let_def split: option.splits)
  have delta: "content_delta (jumped r s) = 0"
    by (simp add: content_delta_def off resp)
  show "Reader_Read E (jumped r s) q =
                  Returns ((min (length q) (length (rs_Content f)), None),
                    take (length q) (rs_Content f) @ drop (length (rs_Content f)) q,
                    (jumped r s)\<lparr>rd_Request := (rd_Request (jumped r s))\<lparr>rq_Offset :=
                       rs_Offset f + of_nat (min (length q) (length (rs_Content f)))\<rparr>\<rparr>)"
    if "rs_Content f \<noteq> []"
  proof -
    have "has_remaining_content (jumped r s)"
      using that by (simp add: has_remaining_content_def delta resp)
    from Reader_Read_content [OF dir this, of E q] show ?thesis
      by (simp add: delta resp off go_copy_def Let_def min_def)
  qed
  show "\<forall>g gs. fs = g # gs \<and> ce_Validate E g = None \<and> rs_Status g = Status_OK
                    \<and> rs_Offset g = rs_Offset f \<longrightarrow>
                  (\<exists>r''. Reader_Read E (jumped r s) q = Returns ((0, None), q, r'')
                     \<and> rd_Response r'' = g
                     \<and> rq_Offset (rd_Request r'') = rs_Offset f)"
    if empty: "rs_Content f = []"
  proof (intro allI impI)
    fix g gs
    assume g: "fs = g # gs \<and> ce_Validate E g = None \<and> rs_Status g = Status_OK
                    \<and> rs_Offset g = rs_Offset f"
    have nrem: "\<not> has_remaining_content (jumped r s)"
      using empty by (simp add: has_remaining_content_def resp)
    have pend: "pending_stream E (jumped r s) = Some (s\<lparr>st_frames := fs\<rparr>)"
      by (simp add: pending_stream_def str)
    have fr: "st_frames (s\<lparr>st_frames := fs\<rparr>) = g # gs" using g by simp
    from Reader_Read_frame_OK [OF dir nrem pend fr, of q] g
    show "\<exists>r''. Reader_Read E (jumped r s) q = Returns ((0, None), q, r'')
                     \<and> rd_Response r'' = g
                     \<and> rq_Offset (rd_Request r'') = rs_Offset f"
      by (simp add: Let_def off accept_frame_def split: option.splits)
  qed
qed


text \<open>
  The theorem at a Reader of \<^verbatim>\<open>a/journal\<close> whose broker sends one frame at offset 9 with
  content \<^verbatim>\<open>bing\<close>: requested at 12 the frame is a regression, requested at 3 it is a
  jump, after which a 2-byte buffer receives \<^verbatim>\<open>bi\<close> and the offset is 11.
\<close>

theorem C10_witness:
  "(\<exists>r'. Reader_Read env_9 (reader_at 12) [0, 0] = Returns ((0, Some (ValidationError
        ''invalid ReadResponse offset (%d; expected >= %d)'')), [0, 0], r')
      \<and> rq_Offset (rd_Request r') = 12)
   \<and> Reader_Read env_9 (reader_at 3) [0, 0] =
        Returns ((0, Some ErrOffsetJump), [0, 0], jumped (reader_at 3) stream_9)
   \<and> rq_Offset (rd_Request (jumped (reader_at 3) stream_9)) = 9
   \<and> Reader_Read env_9 (jumped (reader_at 3) stream_9) [0, 0] =
        Returns ((2, None), [98, 105],
          (jumped (reader_at 3) stream_9)\<lparr>rd_Request :=
             (rd_Request (jumped (reader_at 3) stream_9))\<lparr>rq_Offset := 11\<rparr>\<rparr>)"
proof -
  have h12: "rd_direct (reader_at 12) = None" "\<not> has_remaining_content (reader_at 12)"
    "pending_stream env_9 (reader_at 12) = Some stream_9" "st_frames stream_9 = frame_9 # []"
    "ce_Validate env_9 frame_9 = None" "rs_Status frame_9 = Status_OK"
    by (simp_all add: reader_at_def has_remaining_content_def pending_stream_def env_9_def
        stream_9_def frame_9_def)
  have h3: "rd_direct (reader_at 3) = None" "\<not> has_remaining_content (reader_at 3)"
    "pending_stream env_9 (reader_at 3) = Some stream_9"
    by (simp_all add: reader_at_def has_remaining_content_def pending_stream_def env_9_def)
  have lt12: "rs_Offset frame_9 <s rq_Offset (rd_Request (reader_at 12))"
    by (simp add: frame_9_def reader_at_def)
  have lt3: "rq_Offset (rd_Request (reader_at 3)) <s rs_Offset frame_9"
    by (simp add: frame_9_def reader_at_def)
  have c: "rs_Content frame_9 = [98, 105, 110, 103]" "rs_Offset frame_9 = 9"
    "rq_Offset (rd_Request (reader_at 12)) = 12"
    by (simp_all add: frame_9_def reader_at_def)
  from C10_Read_offset_regression_and_jump [OF h12, of "[0, 0]" "[0, 0]"] lt12
       C10_Read_offset_regression_and_jump [OF h3 h12(4-6), of "[0, 0]" "[0, 0]"] lt3
  show ?thesis by (simp add: c)
qed

subsection \<open>Resolver.Resolve\<close>

text \<open>
  C7. For every resolution that gets as far as its status (the local id is found and the
  proxy header, if any, is accepted, leaving key space \<open>ks\<close>) over a route whose primary, if
  any, is one of its members with a proper id: whatever \<^verbatim>\<open>Resolve\<close> returns carries the
  status NOT_FOUND when the spec is missing, otherwise NO_PRIMARY when the route has no
  primary, otherwise NOT_PRIMARY when proxying is disallowed and the primary is not the
  local process, otherwise OK. Every status but OK is returned without error, under the
  local process id. A missing spec gives NOT_FOUND whatever the route is.
\<close>

theorem C7_Resolve_status_priority:
  assumes "localID_of r = Returns localID"
    and "check_ProxyHeader r localID (args_ProxyHeader args) = Inr ks"
    and "route_ok (ks_Routes ks (args_ShardID args))"
  shows "(\<forall>res e. Resolve r args = Returns (res, e) \<longrightarrow>
            res_Status res = expected_Status ks (args_ShardID args) (args_MayProxy args) localID)
       \<and> (expected_Status ks (args_ShardID args) (args_MayProxy args) localID \<noteq> pc_Status_OK \<longrightarrow>
            (\<exists>res. Resolve r args = Returns (res, None)
               \<and> res_Status res = expected_Status ks (args_ShardID args) (args_MayProxy args) localID
               \<and> hdr_ProcessId (res_Header res) = localID))
       \<and> (ks_Items ks (args_ShardID args) = None \<longrightarrow>
            (\<exists>res. Resolve r args = Returns (res, None)
               \<and> res_Status res = pc_Status_SHARD_NOT_FOUND))"
  using assms
  apply (simp add: Resolve_def Let_def route_ok_def expected_Status_def select_Status_def
      attach_replica_def Resolution_zero_def split: option.splits store_wait.splits)
  apply (auto simp add: ProcessSpec_ID_zero_def)
  done

text \<open>
  The theorem at consumer \<^verbatim>\<open>local/consumer-a\<close>: \<^verbatim>\<open>shard-1\<close>, whose primary is the peer,
  resolved without permission to proxy is NOT_SHARD_PRIMARY; \<^verbatim>\<open>shard-2\<close>, which has neither
  a spec nor a primary, is SHARD_NOT_FOUND.
\<close>

theorem C7_witness:
  "(\<exists>res. Resolve resolver_1
       \<lparr>args_ShardID = ''shard-1'', args_MayProxy = False, args_ProxyHeader = None\<rparr>
         = Returns (res, None)
       \<and> res_Status res = pc_Status_NOT_SHARD_PRIMARY
       \<and> hdr_ProcessId (res_Header res) = consumer_a)
   \<and> (\<exists>res. Resolve resolver_1
       \<lparr>args_ShardID = ''shard-2'', args_MayProxy = True, args_ProxyHeader = None\<rparr>
         = Returns (res, None)
       \<and> res_Status res = pc_Status_SHARD_NOT_FOUND)"
proof -
  have lid: "localID_of resolver_1 = Returns consumer_a"
    by (simp add: localID_of_def resolver_1_def)
  have hdr: "check_ProxyHeader resolver_1 consumer_a (args_ProxyHeader
      \<lparr>args_ShardID = sid, args_MayProxy = mp, args_ProxyHeader = None\<rparr>) = Inr ks_1" for sid mp
    by (simp add: check_ProxyHeader_def resolver_1_def)
  have rt1: "route_ok (ks_Routes ks_1 (args_ShardID
      \<lparr>args_ShardID = ''shard-1'', args_MayProxy = False, args_ProxyHeader = None\<rparr>))"
    by (simp add: route_ok_def ks_1_def consumer_b_def ProcessSpec_ID_zero_def)
  have rt2: "route_ok (ks_Routes ks_1 (args_ShardID
      \<lparr>args_ShardID = ''shard-2'', args_MayProxy = True, args_ProxyHeader = None\<rparr>))"
    by (simp add: route_ok_def ks_1_def)
  have st1: "expected_Status ks_1 ''shard-1'' False consumer_a = pc_Status_NOT_SHARD_PRIMARY"
    by (simp add: expected_Status_def ks_1_def consumer_a_def consumer_b_def)
  have it2: "ks_Items ks_1 ''shard-2'' = None"
    by (simp add: ks_1_def)
  from C7_Resolve_status_priority [OF lid hdr rt1] C7_Resolve_status_priority [OF lid hdr rt2]
  show ?thesis by (simp add: st1 it2)
qed

subsection \<open>The append state machine\<close>

lemma spool_deps_simps:
  "dp_scatter spool_deps req p = (case rr_Proposal req of
       Some f \<Rightarrow> p\<lparr>sp_Fragment := f, sp_delta := []\<rparr>
     | None \<Rightarrow> p\<lparr>sp_delta := sp_delta p @ rr_Content req\<rparr>)"
  "dp_sendErr spool_deps p = sp_sendErr p"
  "dp_recvErr spool_deps p = sp_recvErr p"
  "dp_gatherSync spool_deps p = (sp_sync p, p)"
  "dp_gatherOK spool_deps p = p"
  "dp_gatherEOF spool_deps p = p"
  "dp_closeSend spool_deps p = p"
  "dp_barrier spool_deps p = ((sp_barriers p, Suc (sp_barriers p)),
     p\<lparr>sp_barriers := Suc (sp_barriers p)\<rparr>)"
  "dp_spool_Fragment spool_deps p = sp_Fragment p"
  "dp_spool_Next spool_deps p = (sp_Fragment p)\<lparr>frag_End :=
     frag_End (sp_Fragment p) + of_nat (length (sp_delta p))\<rparr>"
  "dp_nextProposal spool_deps p roll spec = (if roll = 0 then sp_Fragment p
     else (sp_Fragment p)\<lparr>frag_Begin := roll, frag_End := roll\<rparr>)"
  "dp_Validate spool_deps rq = None"
  "dp_SHA1 spool_deps bs = []"
  by (simp_all add: spool_deps_def)

text \<open>
  C3. Every execution of \<^verbatim>\<open>recvPipelineSync\<close> on a pipeline returns, having taken
  \<^verbatim>\<open>rollToOffset\<close> and \<^verbatim>\<open>readThroughRev\<close> from \<^verbatim>\<open>gatherSync()\<close>. If the receive or
  the send side of the pipeline has errored, the pipeline is shut down expecting an error
  and cleared, and the state is the error state with an error set. Otherwise a non-zero
  \<^verbatim>\<open>rollToOffset\<close> leads back to \<^verbatim>\<open>sendPipelineSync\<close> with the pipeline kept and not
  shut down, whatever \<^verbatim>\<open>readThroughRev\<close> is; otherwise a non-zero \<^verbatim>\<open>readThroughRev\<close>
  shuts the pipeline down, clears it and leads to \<^verbatim>\<open>resolve\<close>; otherwise the state is
  \<^verbatim>\<open>updateAssignments\<close>, the pipeline kept.
\<close>

theorem C3_onRecvPipelineSync:
  assumes "fsm_state b = stateRecvPipelineSync" and "fsm_pln b = Some p"
  shows "\<exists>b'. onRecvPipelineSync D b = Returns b'
     \<and> fsm_rollToOffset b' = fst (fst (dp_gatherSync D p))
     \<and> fsm_readThroughRev b' = snd (fst (dp_gatherSync D p))
     \<and> (if dp_recvErr D (snd (dp_gatherSync D p)) \<noteq> None
            \<or> dp_sendErr D (snd (dp_gatherSync D p)) \<noteq> None
         then fsm_state b' = stateError \<and> fsm_pln b' = None \<and> fsm_err b' \<noteq> None
              \<and> fsm_trace b' = fsm_trace b
                   @ [Ev_gatherSync p, Ev_shutdown (snd (dp_gatherSync D p)) True]
         else if fst (fst (dp_gatherSync D p)) \<noteq> 0
         then fsm_state b' = stateSendPipelineSync \<and> fsm_pln b' = Some (snd (dp_gatherSync D p))
              \<and> fsm_err b' = None \<and> fsm_trace b' = fsm_trace b @ [Ev_gatherSync p]
         else if snd (fst (dp_gatherSync D p)) \<noteq> 0
         then fsm_state b' = stateResolve \<and> fsm_pln b' = None \<and> fsm_err b' = None
              \<and> fsm_trace b' = fsm_trace b
                   @ [Ev_gatherSync p, Ev_shutdown (snd (dp_gatherSync D p)) False]
         else fsm_state b' = stateUpdateAssignments \<and> fsm_pln b' = Some (snd (dp_gatherSync D p))
              \<and> fsm_err b' = None \<and> fsm_trace b' = fsm_trace b @ [Ev_gatherSync p])"
  using assms
  by (auto simp add: onRecvPipelineSync_def with_pln_def Let_def emit_def errors_WithMessage_def
      split: option.splits)

text \<open>
  C5. Every execution of \<^verbatim>\<open>awaitDesiredReplicas\<close> returns. With \<open>n\<close> the number of
  route members and \<open>d\<close> the desired replication: if \<open>n > d\<close> the read-through revision
  is the resolution's Etcd revision plus one (in \<^verbatim>\<open>int64\<close>) and the state is
  \<^verbatim>\<open>resolve\<close>; if \<open>n < d\<close> the status is INSUFFICIENT_JOURNAL_BROKERS and the state the
  error state; if \<open>n = d\<close> the state is \<^verbatim>\<open>validateOffset\<close> when the resolved process is
  the local one and the proxy state otherwise.
\<close>

theorem C5_onAwaitDesiredReplicas:
  assumes "fsm_state b = stateAwaitDesiredReplicas"
  shows "\<exists>b'. onAwaitDesiredReplicas b = Returns b'
     \<and> (let n = int (length (Members (rsn_Route (fsm_resolved b))));
             d = js_DesiredReplication (rsn_journalSpec (fsm_resolved b))
         in if d < n
            then fsm_readThroughRev b' = rsn_Etcd_Revision (fsm_resolved b) + 1
                 \<and> fsm_state b' = stateResolve
            else if n < d
            then rsn_status (fsm_resolved b') = Status_INSUFFICIENT_JOURNAL_BROKERS
                 \<and> fsm_state b' = stateError
            else if rsn_ProcessId (fsm_resolved b) = rsn_localID (fsm_resolved b)
            then fsm_state b' = stateValidateOffset
            else fsm_state b' = stateProxy)"
  using assms
  by (simp add: onAwaitDesiredReplicas_def Let_def set_status_def)

text \<open>
  \<open>maxOffset\<close> is the greater of the spool's End and the index's end offset, so the spool's
  End differs from it exactly when it trails it.
\<close>

lemma maxOffset_trails:
  "frag_End (dp_spool_Fragment D p) \<noteq> maxOffset D b p \<longleftrightarrow>
     frag_End (dp_spool_Fragment D p) <s maxOffset D b p"
  by (auto simp add: maxOffset_def Let_def)

lemma maxOffset_is_max:
  "frag_End (dp_spool_Fragment D p) \<le>s maxOffset D b p
   \<and> rsn_index_EndOffset (fsm_resolved b) \<le>s maxOffset D b p
   \<and> (maxOffset D b p = frag_End (dp_spool_Fragment D p)
        \<or> maxOffset D b p = rsn_index_EndOffset (fsm_resolved b))"
  by (auto simp add: maxOffset_def Let_def word_sless_alt word_sle_eq)

text \<open>
  C2. Every execution of \<^verbatim>\<open>validateOffset\<close>: if the wait for the first remote refresh
  fails, the machine ends in the error state with that error, before any offset is looked
  at. Otherwise, with \<open>max_offset\<close> the maximum of the spool's End and the index's end
  offset: (1) the spool's End differs from \<open>max_offset\<close>, the request has no offset and
  the journal is writable: error state, status INDEX_HAS_GREATER_OFFSET; (2) the request's
  offset is non-zero and differs from \<open>max_offset\<close>: error state, status
  WRONG_APPEND_OFFSET; (3) the request's offset is non-zero, equals \<open>max_offset\<close>, and the
  spool's End trails it: \<^verbatim>\<open>rollToOffset\<close> is \<open>max_offset\<close> and the state is
  \<^verbatim>\<open>sendPipelineSync\<close>; (4) otherwise the state is \<^verbatim>\<open>streamContent\<close>.
\<close>

theorem C2_onValidateOffset:
  assumes "fsm_state b = stateValidateOffset"
  shows "(\<forall>e. rsn_index_WaitForFirstRemoteRefresh (fsm_resolved b) = Some e \<longrightarrow>
            onValidateOffset D b = Returns (b\<lparr>fsm_err :=
              Some (WithMessage e ''WaitForFirstRemoteRefresh''), fsm_state := stateError\<rparr>))
       \<and> (\<forall>p. rsn_index_WaitForFirstRemoteRefresh (fsm_resolved b) = None \<and> fsm_pln b = Some p \<longrightarrow>
            (\<exists>b'. onValidateOffset D b = Returns b'
               \<and> (let spoolEnd = frag_End (dp_spool_Fragment D p);
                       offset = ar_Offset (fsm_req b);
                       max_offset = maxOffset D b p
                   in spoolEnd \<le>s max_offset
                      \<and> rsn_index_EndOffset (fsm_resolved b) \<le>s max_offset
                      \<and> (max_offset = spoolEnd \<or> max_offset = rsn_index_EndOffset (fsm_resolved b))
                      \<and> (if spoolEnd \<noteq> max_offset \<and> offset = 0
                             \<and> js_MayWrite (rsn_journalSpec (fsm_resolved b))
                          then fsm_state b' = stateError
                               \<and> rsn_status (fsm_resolved b') = Status_INDEX_HAS_GREATER_OFFSET
                          else if offset \<noteq> 0 \<and> offset \<noteq> max_offset
                          then fsm_state b' = stateError
                               \<and> rsn_status (fsm_resolved b') = Status_WRONG_APPEND_OFFSET
                          else if offset \<noteq> 0 \<and> offset = max_offset \<and> spoolEnd <s max_offset
                          then fsm_rollToOffset b' = max_offset
                               \<and> fsm_state b' = stateSendPipelineSync
                          else fsm_state b' = stateStreamContent
                               \<and> fsm_rollToOffset b' = fsm_rollToOffset b
                               \<and> rsn_status (fsm_resolved b') = rsn_status (fsm_resolved b)))))"
  using assms maxOffset_is_max [of D _ b]
  by (auto simp add: onValidateOffset_def Let_def set_status_def maxOffset_trails [symmetric])


text \<open>
  The theorem on the pipeline without peers: a sync answering \<open>(50, 12)\<close> goes back to
  \<^verbatim>\<open>sendPipelineSync\<close> at roll offset 50, one answering \<open>(0, 12)\<close> goes to
  \<^verbatim>\<open>resolve\<close> without a pipeline, and a send error ends in the error state.
\<close>

theorem C3_witness:
  "(\<exists>b'. onRecvPipelineSync spool_deps
        (fsm_at stateRecvPipelineSync (pln_5\<lparr>sp_sync := (50, 12)\<rparr>)) = Returns b'
      \<and> fsm_state b' = stateSendPipelineSync \<and> fsm_rollToOffset b' = 50
      \<and> fsm_pln b' = Some (pln_5\<lparr>sp_sync := (50, 12)\<rparr>))
   \<and> (\<exists>b'. onRecvPipelineSync spool_deps
        (fsm_at stateRecvPipelineSync (pln_5\<lparr>sp_sync := (0, 12)\<rparr>)) = Returns b'
      \<and> fsm_state b' = stateResolve \<and> fsm_readThroughRev b' = 12 \<and> fsm_pln b' = None)
   \<and> (\<exists>b'. onRecvPipelineSync spool_deps
        (fsm_at stateRecvPipelineSync (pln_5\<lparr>sp_sendErr := Some EOF, sp_sync := (50, 12)\<rparr>))
          = Returns b'
      \<and> fsm_state b' = stateError \<and> fsm_pln b' = None)"
proof -
  have s: "fsm_state (fsm_at stateRecvPipelineSync p) = stateRecvPipelineSync"
    "fsm_pln (fsm_at stateRecvPipelineSync p) = Some p" for p
    by (simp_all add: fsm_at_def)
  from C3_onRecvPipelineSync [OF s, of spool_deps "pln_5\<lparr>sp_sync := (50, 12)\<rparr>"]
       C3_onRecvPipelineSync [OF s, of spool_deps "pln_5\<lparr>sp_sync := (0, 12)\<rparr>"]
       C3_onRecvPipelineSync [OF s, of spool_deps
         "pln_5\<lparr>sp_sendErr := Some EOF, sp_sync := (50, 12)\<rparr>"]
  show ?thesis
    by (simp add: spool_deps_simps pln_5_def) blast
qed

text \<open>
  The theorem at a journal of replication 1 resolved at revision 10: with the local broker
  as only member the state is \<^verbatim>\<open>validateOffset\<close>, with two members the machine waits
  for revision 11, with none it fails with INSUFFICIENT_JOURNAL_BROKERS.
\<close>

theorem C5_witness:
  "(\<exists>b'. onAwaitDesiredReplicas (fsm_at stateAwaitDesiredReplicas pln_5) = Returns b'
      \<and> fsm_state b' = stateValidateOffset)
   \<and> (\<exists>b'. onAwaitDesiredReplicas ((fsm_at stateAwaitDesiredReplicas pln_5)\<lparr>fsm_resolved :=
          resolution_1\<lparr>rsn_Route := \<lparr>Members = [broker_id, consumer_b], Primary = 0\<rparr>\<rparr>\<rparr>)
        = Returns b'
      \<and> fsm_state b' = stateResolve \<and> fsm_readThroughRev b' = 11)
   \<and> (\<exists>b'. onAwaitDesiredReplicas ((fsm_at stateAwaitDesiredReplicas pln_5)\<lparr>fsm_resolved :=
          resolution_1\<lparr>rsn_Route := \<lparr>Members = [], Primary = - 1\<rparr>\<rparr>\<rparr>)
        = Returns b'
      \<and> fsm_state b' = stateError
      \<and> rsn_status (fsm_resolved b') = Status_INSUFFICIENT_JOURNAL_BROKERS)"
proof -
  have s: "fsm_state ((fsm_at stateAwaitDesiredReplicas pln_5)\<lparr>fsm_resolved := r\<rparr>)
      = stateAwaitDesiredReplicas" for r
    by (simp add: fsm_at_def)
  have s0: "fsm_state (fsm_at stateAwaitDesiredReplicas pln_5) = stateAwaitDesiredReplicas"
    by (simp add: fsm_at_def)
  from C5_onAwaitDesiredReplicas [OF s0]
       C5_onAwaitDesiredReplicas [OF s [of
         "resolution_1\<lparr>rsn_Route := \<lparr>Members = [broker_id, consumer_b], Primary = 0\<rparr>\<rparr>"]]
       C5_onAwaitDesiredReplicas [OF s [of
         "resolution_1\<lparr>rsn_Route := \<lparr>Members = [], Primary = - 1\<rparr>\<rparr>"]]
  show ?thesis
    by (simp add: fsm_at_def resolution_1_def Let_def) blast
qed

text \<open>
  The theorem at the spool ending at 5: a cancelled wait is the error; an index ending at 9
  fails an append without offset with INDEX_HAS_GREATER_OFFSET and re-syncs one with offset
  9 at 9; an index ending at 5 lets the append stream.
\<close>

theorem C2_witness:
  "onValidateOffset spool_deps ((fsm_at stateValidateOffset pln_5)\<lparr>fsm_resolved :=
       resolution_1\<lparr>rsn_index_WaitForFirstRemoteRefresh := Some Canceled\<rparr>\<rparr>)
     = Returns ((fsm_at stateValidateOffset pln_5)\<lparr>fsm_resolved :=
         resolution_1\<lparr>rsn_index_WaitForFirstRemoteRefresh := Some Canceled\<rparr>,
         fsm_err := Some (WithMessage Canceled ''WaitForFirstRemoteRefresh''),
         fsm_state := stateError\<rparr>)
   \<and> (\<exists>b'. onValidateOffset spool_deps ((fsm_at stateValidateOffset pln_5)\<lparr>fsm_resolved :=
          resolution_1\<lparr>rsn_index_EndOffset := 9\<rparr>\<rparr>) = Returns b'
      \<and> fsm_state b' = stateError
      \<and> rsn_status (fsm_resolved b') = Status_INDEX_HAS_GREATER_OFFSET)
   \<and> (\<exists>b'. onValidateOffset spool_deps ((fsm_at stateValidateOffset pln_5)\<lparr>fsm_resolved :=
          resolution_1\<lparr>rsn_index_EndOffset := 9\<rparr>,
          fsm_req := (fsm_req (fsm_at stateValidateOffset pln_5))\<lparr>ar_Offset := 9\<rparr>\<rparr>) = Returns b'
      \<and> fsm_state b' = stateSendPipelineSync \<and> fsm_rollToOffset b' = 9)
   \<and> (\<exists>b'. onValidateOffset spool_deps (fsm_at stateValidateOffset pln_5) = Returns b'
      \<and> fsm_state b' = stateStreamContent)"
proof -
  have s: "fsm_state ((fsm_at stateValidateOffset pln_5)\<lparr>fsm_resolved := r\<rparr>)
      = stateValidateOffset"
    "fsm_state ((fsm_at stateValidateOffset pln_5)\<lparr>fsm_resolved := r, fsm_req := q\<rparr>)
      = stateValidateOffset"
    "fsm_state (fsm_at stateValidateOffset pln_5) = stateValidateOffset" for r q
    by (simp_all add: fsm_at_def)
  from C2_onValidateOffset [OF s(1) [of
         "resolution_1\<lparr>rsn_index_WaitForFirstRemoteRefresh := Some Canceled\<rparr>"], of spool_deps]
       C2_onValidateOffset [OF s(1) [of "resolution_1\<lparr>rsn_index_EndOffset := 9\<rparr>"],
         of spool_deps]
       C2_onValidateOffset [OF s(2) [where r = "resolution_1\<lparr>rsn_index_EndOffset := 9\<rparr>"
         and q = "(fsm_req (fsm_at stateValidateOffset pln_5))\<lparr>ar_Offset := 9\<rparr>"], of spool_deps]
       C2_onValidateOffset [OF s(3), of spool_deps]
  show ?thesis
    by (simp add: fsm_at_def resolution_1_def Let_def maxOffset_def spool_deps_simps pln_5_def
        frag_0_5_def) blast
qed

subsection \<open>onStreamContent\<close>

lemma finishStream_cases:
  "finishStream D b q err = Returns b' \<Longrightarrow>
     fsm_state b' = stateReadAcknowledgements
     \<and> fsm_trace b' = fsm_trace b @ [Ev_scatter q (final_req D
          (err = Some EOF \<and> dp_sendErr D q = None \<and> rsn_status (fsm_resolved b) = Status_OK) q)]
     \<and> fsm_pln b' = Some (dp_scatter D (final_req D
          (err = Some EOF \<and> dp_sendErr D q = None \<and> rsn_status (fsm_resolved b) = Status_OK) q) q)
     \<and> fsm_clientCommit b' = fsm_clientCommit b"
  by (auto simp add: finishStream_def final_req_def Let_def emit_def split: if_splits)

lemma finishStream_rollback:
  "err \<noteq> Some EOF \<Longrightarrow> \<exists>b'. finishStream D b q err = Returns b'
      \<and> fsm_err b' = errors_Wrap err ''append stream''"
  by (simp add: finishStream_def Let_def emit_def)

lemma finishStream_returns:
  "fsm_clientCommit b \<Longrightarrow> \<exists>b'. finishStream D b q err = Returns b'"
  by (simp add: finishStream_def Let_def)

lemma streamInit_fields [simp]:
  "fsm_clientCommit (streamInit D b p) = fsm_clientCommit b"
  "fsm_resolved (streamInit D b p) = fsm_resolved b"
  "fsm_state (streamInit D b p) = fsm_state b"
  "fsm_err (streamInit D b p) = fsm_err b"
  by (simp_all add: streamInit_def Let_def emit_def)

lemma forward_content_fields [simp]:
  "fsm_clientCommit (forward_content D b p c) = fsm_clientCommit b"
  "fsm_resolved (forward_content D b p c) = fsm_resolved b"
  "fsm_state (forward_content D b p c) = fsm_state b"
  by (simp_all add: forward_content_def emit_def)

lemma set_status_fields [simp]:
  "fsm_clientCommit (set_status st b) = fsm_clientCommit b"
  "rsn_status (fsm_resolved (set_status st b)) = st"
  "fsm_state (set_status st b) = fsm_state b"
  "fsm_trace (set_status st b) = fsm_trace b"
  by (simp_all add: set_status_def)

lemma streamInit_trace:
  "fsm_trace (streamInit D b p) = fsm_trace b @ init_events D b p"
  by (simp add: streamInit_def init_events_def Let_def emit_def)

lemma streamInit_pln:
  "fsm_pln b = Some p \<Longrightarrow> fsm_pln (streamInit D b p) = Some (stream_pln D b p)"
  by (simp add: streamInit_def stream_pln_def Let_def emit_def)

lemma finishStream_ends:
  assumes "fsm_trace b1 = fsm_trace b @ pre" and "fsm_clientCommit b1 = fsm_clientCommit b"
    and "commit = (err = Some EOF \<and> dp_sendErr D q = None
           \<and> rsn_status (fsm_resolved b1) = Status_OK)"
    and "commit \<longrightarrow> fsm_clientCommit b1"
  shows "ends_stream D b pre q commit
           (if commit then fsm_err b1 else errors_Wrap err ''append stream'')
           (rsn_status (fsm_resolved b1)) (finishStream D b1 q err)"
  using assms
  by (auto simp add: finishStream_def ends_stream_def final_req_def Let_def emit_def)

lemma onStreamContent_error:
  assumes "fsm_state b = stateStreamContent" and "fsm_pln b = Some p"
  shows "ends_stream D b (init_events D b p) (stream_pln D b p)
           (e = EOF \<and> fsm_clientCommit b \<and> dp_sendErr D (stream_pln D b p) = None
              \<and> rsn_status (fsm_resolved b) = Status_OK)
           (if e = EOF \<and> fsm_clientCommit b \<and> dp_sendErr D (stream_pln D b p) = None
                \<and> rsn_status (fsm_resolved b) = Status_OK
            then fsm_err b
            else Some (Wrap (if e = EOF \<and> \<not> fsm_clientCommit b then ErrUnexpectedEOF else e)
                   ''append stream''))
           (rsn_status (fsm_resolved b))
           (onStreamContent D b req (Some e))"
proof (cases "e = EOF \<and> \<not> fsm_clientCommit b")
  case True
  have "onStreamContent D b req (Some e) =
      finishStream D (streamInit D b p) (stream_pln D b p) (Some ErrUnexpectedEOF)"
    using assms True by (simp add: onStreamContent_def with_pln_def chunk_error_def Let_def)
  with True finishStream_ends [of "streamInit D b p" b "init_events D b p" False
      "Some ErrUnexpectedEOF" D "stream_pln D b p"]
  show ?thesis by (simp add: streamInit_trace errors_Wrap_def)
next
  case False
  have "onStreamContent D b req (Some e) =
      finishStream D (streamInit D b p) (stream_pln D b p) (Some e)"
    using assms False by (auto simp add: onStreamContent_def with_pln_def chunk_error_def Let_def)
  with False finishStream_ends [of "streamInit D b p" b "init_events D b p"
      "e = EOF \<and> dp_sendErr D (stream_pln D b p) = None
         \<and> rsn_status (fsm_resolved b) = Status_OK"
      "Some e" D "stream_pln D b p"]
  show ?thesis by (auto simp add: streamInit_trace errors_Wrap_def)
qed

lemma onStreamContent_fault:
  assumes "fsm_state b = stateStreamContent" and "fsm_pln b = Some p"
    and "chunk_error D (Some rq) None = Returns (Some e)" and "e \<noteq> EOF"
  shows "ends_stream D b (init_events D b p) (stream_pln D b p) False
           (Some (Wrap e ''append stream'')) (rsn_status (fsm_resolved b))
           (onStreamContent D b (Some rq) None)"
proof -
  have "onStreamContent D b (Some rq) None =
      finishStream D (streamInit D b p) (stream_pln D b p) (Some e)"
    using assms by (simp add: onStreamContent_def with_pln_def Let_def)
  with assms(4) finishStream_ends [of "streamInit D b p" b "init_events D b p" False
      "Some e" D "stream_pln D b p"]
  show ?thesis by (simp add: streamInit_trace errors_Wrap_def)
qed

lemma onStreamContent_expected_EOF:
  assumes "fsm_state b = stateStreamContent" and "fsm_pln b = Some p"
    and "chunk_error D (Some rq) None = Returns None" and "fsm_clientCommit b"
  shows "ends_stream D b (init_events D b p) (stream_pln D b p) False
           (Some (Wrap errExpectedEOF ''append stream'')) (rsn_status (fsm_resolved b))
           (onStreamContent D b (Some rq) None)"
proof -
  have "onStreamContent D b (Some rq) None =
      finishStream D (streamInit D b p) (stream_pln D b p) (Some errExpectedEOF)"
    using assms by (simp add: onStreamContent_def with_pln_def Let_def)
  with finishStream_ends [of "streamInit D b p" b "init_events D b p" False
      "Some errExpectedEOF" D "stream_pln D b p"]
  show ?thesis by (simp add: streamInit_trace errors_Wrap_def)
qed

lemma onStreamContent_commit_chunk:
  assumes "fsm_state b = stateStreamContent" and "fsm_pln b = Some p"
    and "chunk_error D (Some rq) None = Returns None" and "\<not> fsm_clientCommit b"
    and "ar_Content rq = []"
  shows "onStreamContent D b (Some rq) None = Returns ((streamInit D b p)\<lparr>fsm_clientCommit := True\<rparr>)"
  using assms by (simp add: onStreamContent_def with_pln_def Let_def)

lemma onStreamContent_not_allowed:
  assumes "fsm_state b = stateStreamContent" and "fsm_pln b = Some p"
    and "chunk_error D (Some rq) None = Returns None" and "\<not> fsm_clientCommit b"
    and "ar_Content rq \<noteq> []" and "\<not> js_MayWrite (rsn_journalSpec (fsm_resolved b))"
  shows "ends_stream D b (init_events D b p) (stream_pln D b p) False None Status_NOT_ALLOWED
           (onStreamContent D b (Some rq) None)"
proof -
  have "onStreamContent D b (Some rq) None =
      finishStream D (set_status Status_NOT_ALLOWED (streamInit D b p)) (stream_pln D b p) None"
    using assms by (simp add: onStreamContent_def with_pln_def Let_def)
  with finishStream_ends [of "set_status Status_NOT_ALLOWED (streamInit D b p)" b
      "init_events D b p" False None D "stream_pln D b p"]
  show ?thesis by (simp add: streamInit_trace errors_Wrap_def)
qed

lemma onStreamContent_content:
  assumes "fsm_state b = stateStreamContent" and "fsm_pln b = Some p"
    and "chunk_error D (Some rq) None = Returns None" and "\<not> fsm_clientCommit b"
    and "ar_Content rq \<noteq> []" and "js_MayWrite (rsn_journalSpec (fsm_resolved b))"
  shows "onStreamContent D b (Some rq) None =
     (if dp_sendErr D (dp_scatter D (content_req (streamInit D b p) (ar_Content rq))
            (stream_pln D b p)) = None
      then Returns (forward_content D (streamInit D b p) (stream_pln D b p) (ar_Content rq))
      else finishStream D (forward_content D (streamInit D b p) (stream_pln D b p) (ar_Content rq))
             (dp_scatter D (content_req (streamInit D b p) (ar_Content rq)) (stream_pln D b p))
             None)"
  using assms by (simp add: onStreamContent_def with_pln_def Let_def)

lemma forward_content_trace:
  "fsm_trace (forward_content D b q c) = fsm_trace b @ [Ev_scatter q (content_req b c)]"
  "fsm_pln (forward_content D b q c) = Some (dp_scatter D (content_req b c) q)"
  "fsm_err (forward_content D b q c) = fsm_err b"
  by (simp_all add: forward_content_def emit_def)

lemma onStreamContent_send_failed:
  assumes "fsm_state b = stateStreamContent" and "fsm_pln b = Some p"
    and "chunk_error D (Some rq) None = Returns None" and "\<not> fsm_clientCommit b"
    and "ar_Content rq \<noteq> []" and "js_MayWrite (rsn_journalSpec (fsm_resolved b))"
    and "dp_sendErr D (dp_scatter D (content_req (streamInit D b p) (ar_Content rq))
            (stream_pln D b p)) \<noteq> None"
  shows "ends_stream D b
           (init_events D b p @ [Ev_scatter (stream_pln D b p)
              (content_req (streamInit D b p) (ar_Content rq))])
           (dp_scatter D (content_req (streamInit D b p) (ar_Content rq)) (stream_pln D b p))
           False None (rsn_status (fsm_resolved b))
           (onStreamContent D b (Some rq) None)"
proof -
  let ?b2 = "forward_content D (streamInit D b p) (stream_pln D b p) (ar_Content rq)"
  let ?q2 = "dp_scatter D (content_req (streamInit D b p) (ar_Content rq)) (stream_pln D b p)"
  have "onStreamContent D b (Some rq) None = finishStream D ?b2 ?q2 None"
    using onStreamContent_content [OF assms(1-6)] assms(7) by simp
  with finishStream_ends [of ?b2 b "init_events D b p @ [Ev_scatter (stream_pln D b p)
              (content_req (streamInit D b p) (ar_Content rq))]" False None D ?q2]
  show ?thesis by (simp add: streamInit_trace forward_content_trace errors_Wrap_def)
qed


lemma chunk_error_cases:
  "dp_Validate D rq = Some e \<Longrightarrow> chunk_error D (Some rq) None = Returns (Some e)"
  "dp_Validate D rq = None \<Longrightarrow> ar_Journal rq \<noteq> [] \<Longrightarrow>
     chunk_error D (Some rq) None = Returns (Some errExpectedContentChunk)"
  "dp_Validate D rq = None \<Longrightarrow> ar_Journal rq = [] \<Longrightarrow>
     chunk_error D (Some rq) None = Returns None"
  by (simp_all add: chunk_error_def)

lemma not_acknowledged:
  "ev \<in> set (init_events D b p) \<Longrightarrow> \<not> acknowledged ev"
  "\<not> acknowledged (Ev_scatter q (content_req b1 c))"
  by (auto simp add: init_events_def acknowledged_def content_req_def ReplicateRequest_zero_def
      Let_def split: if_splits)

lemma ends_stream_acknowledged:
  assumes "ends_stream D b pre q commit e st (Returns b')"
    and "\<forall>ev \<in> set pre. \<not> acknowledged ev"
    and "ev \<in> set (drop (length (fsm_trace b)) (fsm_trace b'))" and "acknowledged ev"
  shows "ev = last (fsm_trace b') \<and> fsm_state b' = stateReadAcknowledgements
     \<and> ev = Ev_scatter q (final_req D commit q)"
  using assms by (auto simp add: ends_stream_def)

lemma ends_stream_Returns:
  "ends_stream D b pre q commit e st r \<Longrightarrow> \<exists>b'. r = Returns b'"
  by (cases r) (simp_all add: ends_stream_def)

lemma onStreamContent_acknowledged:
  assumes st: "fsm_state b = stateStreamContent" and pl: "fsm_pln b = Some p"
    and v: "\<forall>rq. dp_Validate D rq \<noteq> Some EOF"
    and r: "onStreamContent D b req err = Returns b'"
    and ev: "ev \<in> set (drop (length (fsm_trace b)) (fsm_trace b'))" "acknowledged ev"
  shows "ev = last (fsm_trace b') \<and> fsm_state b' = stateReadAcknowledgements
     \<and> (\<exists>q. ev = Ev_scatter q (final_req D
            (err = Some EOF \<and> fsm_clientCommit b \<and> dp_sendErr D q = None
               \<and> rsn_status (fsm_resolved b) = Status_OK) q))"
proof -
  let ?q = "stream_pln D b p" and ?i = "init_events D b p" and ?b1 = "streamInit D b p"
  have ni: "\<forall>ev \<in> set ?i. \<not> acknowledged ev"
    by (auto dest: not_acknowledged(1))
  have rollback: ?thesis
    if "ends_stream D b pre q False e s (onStreamContent D b req err)"
      and "\<forall>ev \<in> set pre. \<not> acknowledged ev" and "err \<noteq> Some EOF \<or> \<not> fsm_clientCommit b"
    for pre q e s
    using ends_stream_acknowledged [OF that(1) [unfolded r] that(2) ev] that(3) by auto
  show ?thesis
  proof (cases err)
    case (Some e)
    from onStreamContent_error [OF st pl, of D e req] Some r
    have "ends_stream D b ?i ?q (e = EOF \<and> fsm_clientCommit b \<and> dp_sendErr D ?q = None
              \<and> rsn_status (fsm_resolved b) = Status_OK)
           (if e = EOF \<and> fsm_clientCommit b \<and> dp_sendErr D ?q = None
                \<and> rsn_status (fsm_resolved b) = Status_OK
            then fsm_err b
            else Some (Wrap (if e = EOF \<and> \<not> fsm_clientCommit b then ErrUnexpectedEOF else e)
                   ''append stream''))
           (rsn_status (fsm_resolved b)) (Returns b')"
      by simp
    from ends_stream_acknowledged [OF this ni ev] Some show ?thesis by auto
  next
    case None
    show ?thesis
    proof (cases req)
      case None
      with \<open>err = None\<close> st pl r show ?thesis
        by (simp add: onStreamContent_def with_pln_def chunk_error_def Let_def)
    next
      case (Some rq)
      note ce = chunk_error_cases [of D rq]
      show ?thesis
      proof (cases "dp_Validate D rq")
        case (Some e)
        with v have "e \<noteq> EOF" by auto
        from onStreamContent_fault [OF st pl ce(1) [OF Some] this] \<open>req = Some rq\<close> \<open>err = None\<close>
        show ?thesis by (intro rollback [where pre = ?i]) (simp_all add: ni)
      next
        case None
        show ?thesis
        proof (cases "ar_Journal rq = []")
          case False
          from onStreamContent_fault [OF st pl ce(2) [OF None False]] \<open>req = Some rq\<close> \<open>err = None\<close>
          show ?thesis by (intro rollback [where pre = ?i]) (simp_all add: ni)
        next
          case True
          note cn = ce(3) [OF None True]
          show ?thesis
          proof (cases "fsm_clientCommit b")
            case True
            from onStreamContent_expected_EOF [OF st pl cn True] \<open>req = Some rq\<close> \<open>err = None\<close>
            show ?thesis by (intro rollback [where pre = ?i]) (simp_all add: ni)
          next
            case False
            note ncc = False
            show ?thesis
            proof (cases "ar_Content rq = []")
              case True
              from onStreamContent_commit_chunk [OF st pl cn ncc True] r \<open>req = Some rq\<close>
                \<open>err = None\<close>
              have "fsm_trace b' = fsm_trace b @ ?i" by (auto simp add: streamInit_trace)
              with ev ni show ?thesis by auto
            next
              case False
              note nonempty = False
              show ?thesis
              proof (cases "js_MayWrite (rsn_journalSpec (fsm_resolved b))")
                case False
                from onStreamContent_not_allowed [OF st pl cn ncc nonempty False]
                  \<open>req = Some rq\<close> \<open>err = None\<close>
                show ?thesis by (intro rollback [where pre = ?i]) (simp_all add: ni)
              next
                case True
                let ?c = "content_req ?b1 (ar_Content rq)"
                show ?thesis
                proof (cases "dp_sendErr D (dp_scatter D ?c ?q) = None")
                  case True
                  from onStreamContent_content [OF st pl cn ncc nonempty \<open>js_MayWrite _\<close>] True r
                    \<open>req = Some rq\<close> \<open>err = None\<close>
                  have "fsm_trace b' = fsm_trace b @ ?i @ [Ev_scatter ?q ?c]"
                    by (auto simp add: streamInit_trace forward_content_trace)
                  with ev ni not_acknowledged(2) [of ?q ?b1 "ar_Content rq"] show ?thesis by auto
                next
                  case False
                  from onStreamContent_send_failed [OF st pl cn ncc nonempty \<open>js_MayWrite _\<close> False]
                    \<open>req = Some rq\<close> \<open>err = None\<close>
                  show ?thesis
                    by (intro rollback [where pre = "?i @ [Ev_scatter ?q ?c]"])
                       (auto simp add: ni not_acknowledged)
                qed
              qed
            qed
          qed
        qed
      qed
    qed
  qed
qed


text \<open>
  C1. In \<^verbatim>\<open>streamContent\<close>, on pipeline \<open>q\<close> (the pipeline after the first call's
  roll-forward), with request validation never answering \<open>EOF\<close> itself, one call of
  \<^verbatim>\<open>onStreamContent\<close> does exactly this, and nothing else to the pipeline.
  \<^item> An input with an error (an EOF of the client or any other error) ends the stream: the
    call scatters the commit proposal \<^verbatim>\<open>spool.Next()\<close>, to be acknowledged, if and only
    if the error is EOF, \<^verbatim>\<open>clientCommit\<close> is set, the send side of \<open>q\<close> has not errored
    and the resolved status is OK, and then leaves \<^verbatim>\<open>b.err\<close> alone; in every other case
    it scatters the spool's current fragment, to be acknowledged, and sets \<^verbatim>\<open>b.err\<close> to
    the wrapped error (\<open>ErrUnexpectedEOF\<close> for an EOF without \<^verbatim>\<open>clientCommit\<close>).
  \<^item> An error-free chunk that fails validation, or names a journal, or follows the empty
    chunk, ends the stream with the rollback proposal and the wrapped error.
  \<^item> An error-free empty chunk sets \<^verbatim>\<open>clientCommit\<close> and scatters nothing.
  \<^item> An error-free content chunk to a journal that may not be written ends the stream
    with the rollback proposal and status NOT_ALLOWED; to a writable journal it is
    scattered as content, and if the send side has then errored the rollback proposal
    follows, else the machine stays in \<^verbatim>\<open>streamContent\<close>.
  \<^item> Hence every request the call scatters for acknowledgement is its last act, in
    \<^verbatim>\<open>readAcknowledgements\<close>, and is the commit proposal only under the four
    conditions, the rollback proposal otherwise: no commit proposal is sent unless the
    client sent the empty chunk and then EOF.
\<close>

theorem C1_onStreamContent_terminal:
  assumes st: "fsm_state b = stateStreamContent" and pl: "fsm_pln b = Some p"
    and v: "\<forall>rq. dp_Validate D rq \<noteq> Some EOF"
  shows "(\<forall>e. err = Some e \<longrightarrow>
            ends_stream D b (init_events D b p) (stream_pln D b p)
              (e = EOF \<and> fsm_clientCommit b \<and> dp_sendErr D (stream_pln D b p) = None
                 \<and> rsn_status (fsm_resolved b) = Status_OK)
              (if e = EOF \<and> fsm_clientCommit b \<and> dp_sendErr D (stream_pln D b p) = None
                   \<and> rsn_status (fsm_resolved b) = Status_OK
               then fsm_err b
               else Some (Wrap (if e = EOF \<and> \<not> fsm_clientCommit b then ErrUnexpectedEOF else e)
                      ''append stream''))
              (rsn_status (fsm_resolved b))
              (onStreamContent D b req err))
       \<and> (err = None \<and> req = None \<longrightarrow>
            onStreamContent D b req err = Panics ''nil pointer dereference'')
       \<and> (\<forall>rq. err = None \<and> req = Some rq \<longrightarrow>
            (\<forall>e. dp_Validate D rq = Some e \<longrightarrow>
               ends_stream D b (init_events D b p) (stream_pln D b p) False
                 (Some (Wrap e ''append stream'')) (rsn_status (fsm_resolved b))
                 (onStreamContent D b req err))
          \<and> (dp_Validate D rq = None \<and> ar_Journal rq \<noteq> [] \<longrightarrow>
               ends_stream D b (init_events D b p) (stream_pln D b p) False
                 (Some (Wrap errExpectedContentChunk ''append stream''))
                 (rsn_status (fsm_resolved b))
                 (onStreamContent D b req err))
          \<and> (dp_Validate D rq = None \<and> ar_Journal rq = [] \<and> fsm_clientCommit b \<longrightarrow>
               ends_stream D b (init_events D b p) (stream_pln D b p) False
                 (Some (Wrap errExpectedEOF ''append stream''))
                 (rsn_status (fsm_resolved b))
                 (onStreamContent D b req err))
          \<and> (dp_Validate D rq = None \<and> ar_Journal rq = [] \<and> \<not> fsm_clientCommit b
                \<and> ar_Content rq = [] \<longrightarrow>
               (\<exists>b'. onStreamContent D b req err = Returns b'
                  \<and> fsm_state b' = stateStreamContent \<and> fsm_clientCommit b'
                  \<and> fsm_trace b' = fsm_trace b @ init_events D b p
                  \<and> fsm_pln b' = Some (stream_pln D b p)
                  \<and> fsm_err b' = fsm_err b
                  \<and> rsn_status (fsm_resolved b') = rsn_status (fsm_resolved b)))
          \<and> (dp_Validate D rq = None \<and> ar_Journal rq = [] \<and> \<not> fsm_clientCommit b
                \<and> ar_Content rq \<noteq> [] \<and> \<not> js_MayWrite (rsn_journalSpec (fsm_resolved b)) \<longrightarrow>
               ends_stream D b (init_events D b p) (stream_pln D b p) False None
                 Status_NOT_ALLOWED (onStreamContent D b req err))
          \<and> (dp_Validate D rq = None \<and> ar_Journal rq = [] \<and> \<not> fsm_clientCommit b
                \<and> ar_Content rq \<noteq> [] \<and> js_MayWrite (rsn_journalSpec (fsm_resolved b))
                \<and> dp_sendErr D (dp_scatter D (content_req (streamInit D b p) (ar_Content rq))
                     (stream_pln D b p)) = None \<longrightarrow>
               (\<exists>b'. onStreamContent D b req err = Returns b'
                  \<and> fsm_state b' = stateStreamContent \<and> \<not> fsm_clientCommit b'
                  \<and> fsm_trace b' = fsm_trace b @ init_events D b p
                       @ [Ev_scatter (stream_pln D b p)
                            (content_req (streamInit D b p) (ar_Content rq))]
                  \<and> fsm_pln b' = Some (dp_scatter D
                       (content_req (streamInit D b p) (ar_Content rq)) (stream_pln D b p))
                  \<and> fsm_err b' = fsm_err b
                  \<and> rsn_status (fsm_resolved b') = rsn_status (fsm_resolved b)))
          \<and> (dp_Validate D rq = None \<and> ar_Journal rq = [] \<and> \<not> fsm_clientCommit b
                \<and> ar_Content rq \<noteq> [] \<and> js_MayWrite (rsn_journalSpec (fsm_resolved b))
                \<and> dp_sendErr D (dp_scatter D (content_req (streamInit D b p) (ar_Content rq))
                     (stream_pln D b p)) \<noteq> None \<longrightarrow>
               ends_stream D b
                 (init_events D b p @ [Ev_scatter (stream_pln D b p)
                    (content_req (streamInit D b p) (ar_Content rq))])
                 (dp_scatter D (content_req (streamInit D b p) (ar_Content rq))
                    (stream_pln D b p))
                 False None (rsn_status (fsm_resolved b))
                 (onStreamContent D b req err)))
       \<and> (\<forall>b' ev. onStreamContent D b req err = Returns b'
              \<and> ev \<in> set (drop (length (fsm_trace b)) (fsm_trace b')) \<and> acknowledged ev \<longrightarrow>
            ev = last (fsm_trace b') \<and> fsm_state b' = stateReadAcknowledgements
            \<and> (\<exists>q. ev = Ev_scatter q (final_req D
                   (err = Some EOF \<and> fsm_clientCommit b \<and> dp_sendErr D q = None
                      \<and> rsn_status (fsm_resolved b) = Status_OK) q)))"
proof (intro conjI allI impI; (elim conjE)?)
  fix e assume "err = Some e"
  with onStreamContent_error [OF st pl, of D e req]
  show "ends_stream D b (init_events D b p) (stream_pln D b p)
              (e = EOF \<and> fsm_clientCommit b \<and> dp_sendErr D (stream_pln D b p) = None
                 \<and> rsn_status (fsm_resolved b) = Status_OK)
              (if e = EOF \<and> fsm_clientCommit b \<and> dp_sendErr D (stream_pln D b p) = None
                   \<and> rsn_status (fsm_resolved b) = Status_OK
               then fsm_err b
               else Some (Wrap (if e = EOF \<and> \<not> fsm_clientCommit b then ErrUnexpectedEOF else e)
                      ''append stream''))
              (rsn_status (fsm_resolved b))
              (onStreamContent D b req err)"
    by simp
next
  assume "err = None" "req = None"
  with st pl show "onStreamContent D b req err = Panics ''nil pointer dereference''"
    by (simp add: onStreamContent_def with_pln_def chunk_error_def Let_def)
next
  fix rq e assume h: "err = None" "req = Some rq" "dp_Validate D rq = Some e"
  with v have "e \<noteq> EOF" by auto
  from onStreamContent_fault [OF st pl chunk_error_cases(1) [OF h(3)] this] h
  show "ends_stream D b (init_events D b p) (stream_pln D b p) False
                 (Some (Wrap e ''append stream'')) (rsn_status (fsm_resolved b))
                 (onStreamContent D b req err)"
    by simp
next
  fix rq assume h: "err = None" "req = Some rq" "dp_Validate D rq = None" "ar_Journal rq \<noteq> []"
  from onStreamContent_fault [OF st pl chunk_error_cases(2) [OF h(3,4)]] h
  show "ends_stream D b (init_events D b p) (stream_pln D b p) False
                 (Some (Wrap errExpectedContentChunk ''append stream''))
                 (rsn_status (fsm_resolved b))
                 (onStreamContent D b req err)"
    by simp
next
  fix rq assume h: "err = None" "req = Some rq" "dp_Validate D rq = None" "ar_Journal rq = []"
    "fsm_clientCommit b"
  from onStreamContent_expected_EOF [OF st pl chunk_error_cases(3) [OF h(3,4)] h(5)] h
  show "ends_stream D b (init_events D b p) (stream_pln D b p) False
                 (Some (Wrap errExpectedEOF ''append stream''))
                 (rsn_status (fsm_resolved b))
                 (onStreamContent D b req err)"
    by simp
next
  fix rq assume h: "err = None" "req = Some rq" "dp_Validate D rq = None" "ar_Journal rq = []"
    "\<not> fsm_clientCommit b" "ar_Content rq = []"
  from onStreamContent_commit_chunk [OF st pl chunk_error_cases(3) [OF h(3,4)] h(5,6)] h pl
  show "\<exists>b'. onStreamContent D b req err = Returns b'
                  \<and> fsm_state b' = stateStreamContent \<and> fsm_clientCommit b'
                  \<and> fsm_trace b' = fsm_trace b @ init_events D b p
                  \<and> fsm_pln b' = Some (stream_pln D b p)
                  \<and> fsm_err b' = fsm_err b
                  \<and> rsn_status (fsm_resolved b') = rsn_status (fsm_resolved b)"
    by (simp add: streamInit_trace streamInit_pln st)
next
  fix rq assume h: "err = None" "req = Some rq" "dp_Validate D rq = None" "ar_Journal rq = []"
    "\<not> fsm_clientCommit b" "ar_Content rq \<noteq> []"
    "\<not> js_MayWrite (rsn_journalSpec (fsm_resolved b))"
  from onStreamContent_not_allowed [OF st pl chunk_error_cases(3) [OF h(3,4)] h(5,6,7)] h
  show "ends_stream D b (init_events D b p) (stream_pln D b p) False None
                 Status_NOT_ALLOWED (onStreamContent D b req err)"
    by simp
next
  fix rq assume h: "err = None" "req = Some rq" "dp_Validate D rq = None" "ar_Journal rq = []"
    "\<not> fsm_clientCommit b" "ar_Content rq \<noteq> []"
    "js_MayWrite (rsn_journalSpec (fsm_resolved b))"
    "dp_sendErr D (dp_scatter D (content_req (streamInit D b p) (ar_Content rq))
                     (stream_pln D b p)) = None"
  from onStreamContent_content [OF st pl chunk_error_cases(3) [OF h(3,4)] h(5,6,7)] h
  show "\<exists>b'. onStreamContent D b req err = Returns b'
                  \<and> fsm_state b' = stateStreamContent \<and> \<not> fsm_clientCommit b'
                  \<and> fsm_trace b' = fsm_trace b @ init_events D b p
                       @ [Ev_scatter (stream_pln D b p)
                            (content_req (streamInit D b p) (ar_Content rq))]
                  \<and> fsm_pln b' = Some (dp_scatter D
                       (content_req (streamInit D b p) (ar_Content rq)) (stream_pln D b p))
                  \<and> fsm_err b' = fsm_err b
                  \<and> rsn_status (fsm_resolved b') = rsn_status (fsm_resolved b)"
    by (simp add: streamInit_trace forward_content_trace st)
next
  fix rq assume h: "err = None" "req = Some rq" "dp_Validate D rq = None" "ar_Journal rq = []"
    "\<not> fsm_clientCommit b" "ar_Content rq \<noteq> []"
    "js_MayWrite (rsn_journalSpec (fsm_resolved b))"
    "dp_sendErr D (dp_scatter D (content_req (streamInit D b p) (ar_Content rq))
                     (stream_pln D b p)) \<noteq> None"
  from onStreamContent_send_failed [OF st pl chunk_error_cases(3) [OF h(3,4)] h(5,6,7,8)] h
  show "ends_stream D b
                 (init_events D b p @ [Ev_scatter (stream_pln D b p)
                    (content_req (streamInit D b p) (ar_Content rq))])
                 (dp_scatter D (content_req (streamInit D b p) (ar_Content rq))
                    (stream_pln D b p))
                 False None (rsn_status (fsm_resolved b))
                 (onStreamContent D b req err)"
    by simp
next
  fix b' ev assume h: "onStreamContent D b req err = Returns b'"
    "ev \<in> set (drop (length (fsm_trace b)) (fsm_trace b'))" "acknowledged ev"
  from onStreamContent_acknowledged [OF st pl v h]
  show "ev = last (fsm_trace b')" "fsm_state b' = stateReadAcknowledgements"
    "\<exists>q. ev = Ev_scatter q (final_req D
                   (err = Some EOF \<and> fsm_clientCommit b \<and> dp_sendErr D q = None
                      \<and> rsn_status (fsm_resolved b) = Status_OK) q)"
    by blast+
qed


lemma pln_hello_proposals:
  "final_req spool_deps True pln_hello =
     ReplicateRequest_zero\<lparr>rr_Proposal := Some (frag_0_5\<lparr>frag_End := 10\<rparr>),
       rr_Acknowledge := True\<rparr>"
  "final_req spool_deps False pln_hello =
     ReplicateRequest_zero\<lparr>rr_Proposal := Some frag_0_5, rr_Acknowledge := True\<rparr>"
  "final_req spool_deps False (pln_hello\<lparr>sp_sendErr := Some EOF\<rparr>) =
     ReplicateRequest_zero\<lparr>rr_Proposal := Some frag_0_5, rr_Acknowledge := True\<rparr>"
  "final_req spool_deps True pln_hello \<noteq> final_req spool_deps False pln_hello"
  by (simp_all add: final_req_def spool_deps_simps pln_hello_def pln_5_def hello_def frag_0_5_def
      ReplicateRequest_zero_def)

text \<open>
  The theorem at the spool holding \<^verbatim>\<open>hello\<close>, where the commit proposal \<open>[0, 10)\<close> and
  the rollback proposal \<open>[0, 5)\<close> differ: EOF after the empty chunk commits; EOF without
  it, EOF after a send error, and a content chunk after the empty chunk roll back; the
  empty chunk sets \<^verbatim>\<open>clientCommit\<close> and scatters nothing.
\<close>

theorem C1_witness:
  "(\<exists>b'. onStreamContent spool_deps
         ((fsm_at stateStreamContent pln_hello)\<lparr>fsm_clientCommit := True\<rparr>) None (Some EOF)
       = Returns b'
     \<and> fsm_state b' = stateReadAcknowledgements
     \<and> fsm_trace b' = [Ev_scatter pln_hello (ReplicateRequest_zero\<lparr>
          rr_Proposal := Some (frag_0_5\<lparr>frag_End := 10\<rparr>), rr_Acknowledge := True\<rparr>)]
     \<and> fsm_err b' = None)
   \<and> (\<exists>b'. onStreamContent spool_deps (fsm_at stateStreamContent pln_hello) None (Some EOF)
       = Returns b'
     \<and> fsm_state b' = stateReadAcknowledgements
     \<and> fsm_trace b' = [Ev_scatter pln_hello (ReplicateRequest_zero\<lparr>
          rr_Proposal := Some frag_0_5, rr_Acknowledge := True\<rparr>)]
     \<and> fsm_err b' = Some (Wrap ErrUnexpectedEOF ''append stream''))
   \<and> (\<exists>b'. onStreamContent spool_deps
         ((fsm_at stateStreamContent (pln_hello\<lparr>sp_sendErr := Some EOF\<rparr>))\<lparr>
            fsm_clientCommit := True\<rparr>) None (Some EOF)
       = Returns b'
     \<and> fsm_state b' = stateReadAcknowledgements
     \<and> fsm_trace b' = [Ev_scatter (pln_hello\<lparr>sp_sendErr := Some EOF\<rparr>)
          (ReplicateRequest_zero\<lparr>rr_Proposal := Some frag_0_5, rr_Acknowledge := True\<rparr>)]
     \<and> fsm_err b' = Some (Wrap EOF ''append stream''))
   \<and> (\<exists>b'. onStreamContent spool_deps (fsm_at stateStreamContent pln_hello)
         (Some (chunk_req [])) None = Returns b'
     \<and> fsm_state b' = stateStreamContent \<and> fsm_clientCommit b' \<and> fsm_trace b' = [])
   \<and> (\<exists>b'. onStreamContent spool_deps
         ((fsm_at stateStreamContent pln_hello)\<lparr>fsm_clientCommit := True\<rparr>)
         (Some (chunk_req hello)) None = Returns b'
     \<and> fsm_state b' = stateReadAcknowledgements
     \<and> fsm_trace b' = [Ev_scatter pln_hello (ReplicateRequest_zero\<lparr>
          rr_Proposal := Some frag_0_5, rr_Acknowledge := True\<rparr>)]
     \<and> fsm_err b' = Some (Wrap errExpectedEOF ''append stream''))"
proof -
  let ?C = "\<lambda>p. fsm_at stateStreamContent p"
  let ?B = "\<lambda>p. (fsm_at stateStreamContent p)\<lparr>fsm_clientCommit := True\<rparr>"
  have v: "\<forall>rq. dp_Validate spool_deps rq \<noteq> Some EOF"
    by (simp add: spool_deps_simps)
  have sC: "fsm_state (?C p) = stateStreamContent" "fsm_pln (?C p) = Some p"
    and sB: "fsm_state (?B p) = stateStreamContent" "fsm_pln (?B p) = Some p" for p
    by (simp_all add: fsm_at_def)
  have f: "fsm_clientCommit (?B p)" "\<not> fsm_clientCommit (?C p)"
    "rsn_status (fsm_resolved (?B p)) = Status_OK" "rsn_status (fsm_resolved (?C p)) = Status_OK"
    "fsm_trace (?B p) = []" "fsm_trace (?C p) = []"
    "fsm_err (?B p) = None" "fsm_err (?C p) = None" for p
    by (simp_all add: fsm_at_def resolution_1_def)
  have i: "init_events spool_deps x p = []" "stream_pln spool_deps x p = p" for x p
    by (simp_all add: init_events_def stream_pln_def spool_deps_simps Let_def)
  have e: "dp_sendErr spool_deps pln_hello = None"
    "dp_sendErr spool_deps (pln_hello\<lparr>sp_sendErr := Some EOF\<rparr>) = Some EOF"
    by (simp_all add: spool_deps_simps pln_hello_def pln_5_def)
  have c: "dp_Validate spool_deps (chunk_req x) = None" "ar_Journal (chunk_req x) = []"
    "ar_Content (chunk_req x) = x" for x
    by (simp_all add: spool_deps_simps chunk_req_def)
  note t1 = C1_onStreamContent_terminal [OF sB [of pln_hello] v,
      where err = "Some EOF" and req = None]
    and t2 = C1_onStreamContent_terminal [OF sC [of pln_hello] v,
      where err = "Some EOF" and req = None]
    and t3 = C1_onStreamContent_terminal [OF sB [of "pln_hello\<lparr>sp_sendErr := Some EOF\<rparr>"] v,
      where err = "Some EOF" and req = None]
    and t4 = C1_onStreamContent_terminal [OF sC [of pln_hello] v,
      where err = None and req = "Some (chunk_req [])"]
    and t5 = C1_onStreamContent_terminal [OF sB [of pln_hello] v,
      where err = None and req = "Some (chunk_req hello)"]
  from t1 have 1: "ends_stream spool_deps (?B pln_hello) [] pln_hello True None Status_OK
      (onStreamContent spool_deps (?B pln_hello) None (Some EOF))"
    by (simp add: f i e)
  from t2 have 2: "ends_stream spool_deps (?C pln_hello) [] pln_hello False
      (Some (Wrap ErrUnexpectedEOF ''append stream'')) Status_OK
      (onStreamContent spool_deps (?C pln_hello) None (Some EOF))"
    by (simp add: f i e)
  from t3 have 3: "ends_stream spool_deps (?B (pln_hello\<lparr>sp_sendErr := Some EOF\<rparr>)) []
      (pln_hello\<lparr>sp_sendErr := Some EOF\<rparr>) False
      (Some (Wrap EOF ''append stream'')) Status_OK
      (onStreamContent spool_deps (?B (pln_hello\<lparr>sp_sendErr := Some EOF\<rparr>)) None (Some EOF))"
    by (simp add: f i e)
  from t4 have 4: "\<exists>b'. onStreamContent spool_deps (?C pln_hello) (Some (chunk_req [])) None
        = Returns b'
      \<and> fsm_state b' = stateStreamContent \<and> fsm_clientCommit b' \<and> fsm_trace b' = []"
    by (simp add: f i c) blast
  from t5 have 5: "ends_stream spool_deps (?B pln_hello) [] pln_hello False
      (Some (Wrap errExpectedEOF ''append stream'')) Status_OK
      (onStreamContent spool_deps (?B pln_hello) (Some (chunk_req hello)) None)"
    by (simp add: f i c)
  from 1 2 3 4 5 show ?thesis
    by (simp add: ends_stream_def f pln_hello_proposals split: outcome.splits)
qed

subsection \<open>The chunk timeout of run\<close>

lemma streamLoop_left:
  "fsm_state b \<noteq> stateStreamContent \<Longrightarrow> streamLoop D b saw evs = Returns (b, saw)"
  by (cases evs) simp_all

lemma feedChunks_left:
  "fsm_state b \<noteq> stateStreamContent \<Longrightarrow> feedChunks D b evs = Returns b"
  by (induction D b evs rule: feedChunks.induct) simp_all

lemma streamLoop_append:
  "streamLoop D b saw (xs @ ys) =
     (case streamLoop D b saw xs of
        Returns r \<Rightarrow> streamLoop D (fst r) (snd r) ys
      | Panics m \<Rightarrow> Panics m
      | BlocksForever \<Rightarrow> BlocksForever)"
proof (induction xs arbitrary: b saw)
  case Nil
  show ?case by simp
next
  case (Cons ev xs)
  show ?case
  proof (cases "fsm_state b = stateStreamContent")
    case False
    then show ?thesis by (simp add: streamLoop_left)
  next
    case True
    then show ?thesis
      by (cases ev) (simp_all add: Cons.IH split: outcome.splits)
  qed
qed

lemma streamLoop_no_timeout:
  "chunk_every_period saw evs \<Longrightarrow> fst_outcome (streamLoop D b saw evs) = feedChunks D b evs"
proof (induction evs arbitrary: b saw)
  case Nil
  show ?case by (simp add: fst_outcome_def)
next
  case (Cons ev evs)
  show ?case
  proof (cases "fsm_state b = stateStreamContent")
    case False
    then show ?thesis by (simp add: streamLoop_left feedChunks_left fst_outcome_def)
  next
    case True
    show ?thesis
    proof (cases ev)
      case (Chunk req err)
      with Cons.prems have "chunk_every_period True evs" by simp
      from Cons.IH [OF this] Chunk True show ?thesis
        by (simp add: fst_outcome_def split: outcome.splits)
    next
      case Tick
      with Cons.prems have "saw" "chunk_every_period False evs" by simp_all
      from Cons.IH [OF this(2)] Tick True \<open>saw\<close> show ?thesis by simp
    qed
  qed
qed

lemma onStreamContent_deadline:
  assumes "fsm_state b = stateStreamContent" and "fsm_pln b = Some p"
  shows "\<exists>b'. onStreamContent D b None (Some DeadlineExceeded) = Returns b'
     \<and> fsm_state b' = stateReadAcknowledgements
     \<and> fsm_err b' = Some (Wrap DeadlineExceeded ''append stream'')
     \<and> fsm_trace b' \<noteq> []
     \<and> last (fsm_trace b') = Ev_scatter (stream_pln D b p) (final_req D False (stream_pln D b p))"
proof -
  obtain b' where f: "finishStream D (streamInit D b p) (stream_pln D b p) (Some DeadlineExceeded)
      = Returns b'" and e: "fsm_err b' = errors_Wrap (Some DeadlineExceeded) ''append stream''"
    using finishStream_rollback [of "Some DeadlineExceeded" D "streamInit D b p" "stream_pln D b p"]
    by auto
  from assms f e finishStream_cases [OF f] show ?thesis
    by (simp add: onStreamContent_def with_pln_def chunk_error_def Let_def errors_Wrap_def)
qed

text \<open>
  The timer injects the error at any tick before which no chunk was seen since the tick
  before or since the loop began; so the first of two ticks already aborts when no chunk
  came before it.
\<close>

lemma streamLoop_first_tick:
  assumes "fsm_state b = stateStreamContent"
    and "onStreamContent D b None (Some DeadlineExceeded) = Returns b'"
    and "fsm_state b' \<noteq> stateStreamContent"
  shows "streamLoop D b False (Tick # evs) = Returns (b', False)"
  using assms by (simp add: streamLoop_left)

lemma streamLoop_two_ticks:
  assumes "fsm_state b = stateStreamContent"
    and "onStreamContent D b None (Some DeadlineExceeded) = Returns b'"
    and "fsm_state b' \<noteq> stateStreamContent"
  shows "streamLoop D b saw (Tick # Tick # evs) = Returns (b', False)"
  using assms by (cases saw) (simp_all add: streamLoop_left)

text \<open>
  C4. For a run that is in \<^verbatim>\<open>streamContent\<close> after any sequence \<open>pre\<close> of chunks and
  ticks: two ticks in a row next make the loop inject \<^verbatim>\<open>context.DeadlineExceeded\<close> into
  \<^verbatim>\<open>onStreamContent\<close>, which ends the stream in \<^verbatim>\<open>readAcknowledgements\<close> with the
  wrapped error, its last act the scatter of the rollback proposal, the spool's current
  fragment. And for any sequence of events in which a chunk is delivered in every tick
  period, the loop does exactly what feeding the chunks to \<^verbatim>\<open>onStreamContent\<close> without
  any timer does: the timer never aborts. (Time itself is not modelled: the ticker's period
  \<^verbatim>\<open>appendChunkTimeout\<close> only spaces the ticks.)
\<close>

theorem C4_chunk_timeout:
  assumes "streamLoop D b0 False pre = Returns (b, saw)"
    and "fsm_state b = stateStreamContent" and "fsm_pln b = Some p"
  shows "(\<exists>b'. streamLoop D b0 False (pre @ Tick # Tick # evs) = Returns (b', False)
            \<and> onStreamContent D b None (Some DeadlineExceeded) = Returns b'
            \<and> fsm_state b' = stateReadAcknowledgements
            \<and> fsm_err b' = Some (Wrap DeadlineExceeded ''append stream'')
            \<and> fsm_trace b' \<noteq> []
            \<and> last (fsm_trace b')
                = Ev_scatter (stream_pln D b p) (final_req D False (stream_pln D b p)))
       \<and> (\<forall>evs'. chunk_every_period False evs' \<longrightarrow>
            fst_outcome (streamLoop D b0 False evs') = feedChunks D b0 evs')"
proof (intro conjI allI impI)
  from onStreamContent_deadline [OF assms(2,3), of D] obtain b' where
    b': "onStreamContent D b None (Some DeadlineExceeded) = Returns b'"
      "fsm_state b' = stateReadAcknowledgements"
      "fsm_err b' = Some (Wrap DeadlineExceeded ''append stream'')"
      "fsm_trace b' \<noteq> []"
      "last (fsm_trace b') = Ev_scatter (stream_pln D b p) (final_req D False (stream_pln D b p))"
    by blast
  have "streamLoop D b saw (Tick # Tick # evs) = Returns (b', False)"
    using streamLoop_two_ticks [OF assms(2) b'(1)] b'(2) by simp
  with assms(1) have "streamLoop D b0 False (pre @ Tick # Tick # evs) = Returns (b', False)"
    by (simp add: streamLoop_append)
  with b' show "\<exists>b'. streamLoop D b0 False (pre @ Tick # Tick # evs) = Returns (b', False)
            \<and> onStreamContent D b None (Some DeadlineExceeded) = Returns b'
            \<and> fsm_state b' = stateReadAcknowledgements
            \<and> fsm_err b' = Some (Wrap DeadlineExceeded ''append stream'')
            \<and> fsm_trace b' \<noteq> []
            \<and> last (fsm_trace b')
                = Ev_scatter (stream_pln D b p) (final_req D False (stream_pln D b p))"
    by blast
next
  fix evs' assume "chunk_every_period False evs'"
  then show "fst_outcome (streamLoop D b0 False evs') = feedChunks D b0 evs'"
    by (rule streamLoop_no_timeout)
qed


lemma streamLoop_hello:
  "streamLoop spool_deps (fsm_at stateStreamContent pln_5) False [chunk_of hello] =
     Returns (forward_content spool_deps
       (streamInit spool_deps (fsm_at stateStreamContent pln_5) pln_5) pln_5 hello, True)"
proof -
  let ?B = "fsm_at stateStreamContent pln_5"
  let ?rq = "\<lparr>ar_Header = None, ar_Journal = [], ar_DoNotProxy = False,
     ar_Offset = 0, ar_Content = hello\<rparr>"
  have st: "fsm_state ?B = stateStreamContent" "fsm_pln ?B = Some pln_5"
    "\<not> fsm_clientCommit ?B" "js_MayWrite (rsn_journalSpec (fsm_resolved ?B))"
    by (simp_all add: fsm_at_def resolution_1_def)
  have sp: "stream_pln spool_deps ?B pln_5 = pln_5"
    by (simp add: stream_pln_def spool_deps_simps Let_def)
  have ce: "chunk_error spool_deps (Some ?rq) None = Returns None"
    by (simp add: chunk_error_def spool_deps_simps)
  have se: "dp_sendErr spool_deps (dp_scatter spool_deps (content_req b hello) pln_5) = None" for b
    by (simp add: spool_deps_simps content_req_def ReplicateRequest_zero_def pln_5_def)
  have ne: "hello \<noteq> []" by (simp add: hello_def)
  have "onStreamContent spool_deps ?B (Some ?rq) None =
      Returns (forward_content spool_deps (streamInit spool_deps ?B pln_5) pln_5 hello)"
    by (simp add: onStreamContent_def with_pln_def Let_def st sp ce se ne)
  then show ?thesis
    by (simp add: chunk_of_def st)
qed

text \<open>
  The theorem at an append of \<^verbatim>\<open>hello\<close> to the spool at \<open>[0, 5)\<close> followed by two
  ticks: the rollback proposal \<open>[0, 5)\<close> is scattered on the pipeline holding the five
  uncommitted bytes. With a chunk before every tick the loop agrees with the timer-free
  feed.
\<close>

theorem C4_witness:
  "(\<exists>b'. streamLoop spool_deps (fsm_at stateStreamContent pln_5) False
          [chunk_of hello, Tick, Tick] = Returns (b', False)
       \<and> fsm_state b' = stateReadAcknowledgements
       \<and> fsm_err b' = Some (Wrap DeadlineExceeded ''append stream'')
       \<and> last (fsm_trace b') = Ev_scatter (pln_5\<lparr>sp_delta := hello\<rparr>)
            (ReplicateRequest_zero\<lparr>rr_Proposal := Some frag_0_5, rr_Acknowledge := True\<rparr>))
   \<and> fst_outcome (streamLoop spool_deps (fsm_at stateStreamContent pln_5) False
          [chunk_of hello, Tick, chunk_of [], Tick, Chunk None (Some EOF)])
       = feedChunks spool_deps (fsm_at stateStreamContent pln_5)
          [chunk_of hello, Tick, chunk_of [], Tick, Chunk None (Some EOF)]"
proof -
  let ?b = "forward_content spool_deps
       (streamInit spool_deps (fsm_at stateStreamContent pln_5) pln_5) pln_5 hello"
  have s: "fsm_state ?b = stateStreamContent"
    by (simp add: fsm_at_def)
  have p: "fsm_pln ?b = Some (pln_5\<lparr>sp_delta := hello\<rparr>)"
    by (simp add: forward_content_def spool_deps_simps content_req_def ReplicateRequest_zero_def
        pln_5_def)
  have q: "stream_pln spool_deps ?b (pln_5\<lparr>sp_delta := hello\<rparr>) = pln_5\<lparr>sp_delta := hello\<rparr>"
    by (simp add: stream_pln_def spool_deps_simps Let_def)
  have r: "final_req spool_deps False (pln_5\<lparr>sp_delta := hello\<rparr>)
      = ReplicateRequest_zero\<lparr>rr_Proposal := Some frag_0_5, rr_Acknowledge := True\<rparr>"
    by (simp add: final_req_def spool_deps_simps pln_5_def)
  have c: "chunk_every_period False [chunk_of hello, Tick, chunk_of [], Tick, Chunk None (Some EOF)]"
    by (simp add: chunk_of_def)
  note t = C4_chunk_timeout [OF streamLoop_hello s p, of "[]"]
  from t have "\<exists>b'. streamLoop spool_deps (fsm_at stateStreamContent pln_5) False
          [chunk_of hello, Tick, Tick] = Returns (b', False)
       \<and> fsm_state b' = stateReadAcknowledgements
       \<and> fsm_err b' = Some (Wrap DeadlineExceeded ''append stream'')
       \<and> last (fsm_trace b') = Ev_scatter (pln_5\<lparr>sp_delta := hello\<rparr>)
            (ReplicateRequest_zero\<lparr>rr_Proposal := Some frag_0_5, rr_Acknowledge := True\<rparr>)"
    by (simp only: q r append_Cons append_Nil) blast
  moreover from t c have "fst_outcome (streamLoop spool_deps (fsm_at stateStreamContent pln_5) False
          [chunk_of hello, Tick, chunk_of [], Tick, Chunk None (Some EOF)])
       = feedChunks spool_deps (fsm_at stateStreamContent pln_5)
          [chunk_of hello, Tick, chunk_of [], Tick, Chunk None (Some EOF)]"
    by blast
  ultimately show ?thesis by blast
qed

subsection \<open>onReadAcknowledgements\<close>

text \<open>
  C6. Every execution of \<^verbatim>\<open>readAcknowledgements\<close> by the owner of a pipeline returns,
  with \<^verbatim>\<open>plnReturnCh\<close> cleared. If the send side has errored it does, in this order:
  \<^verbatim>\<open>barrier()\<close>, \<^verbatim>\<open>closeSend()\<close>, the send of nil to the pipeline mailbox, the receive
  from \<^verbatim>\<open>waitFor\<close>, \<^verbatim>\<open>gatherOK()\<close>, \<^verbatim>\<open>gatherEOF()\<close>, the close of
  \<^verbatim>\<open>closeAfter\<close>; and it ends in the error state. If the send side has not errored:
  \<^verbatim>\<open>barrier()\<close>, the send of the pipeline itself to the mailbox, the receive from
  \<^verbatim>\<open>waitFor\<close>, \<^verbatim>\<open>gatherOK()\<close>, the close of \<^verbatim>\<open>closeAfter\<close>; neither
  \<^verbatim>\<open>closeSend()\<close> nor \<^verbatim>\<open>gatherEOF()\<close> is called.
\<close>

theorem C6_onReadAcknowledgements_send_error:
  assumes "fsm_state b = stateReadAcknowledgements" and "fsm_pln b = Some p"
    and "fsm_plnReturnCh b"
  shows "\<exists>b'. onReadAcknowledgements D b = Returns b' \<and> \<not> fsm_plnReturnCh b'
     \<and> (let waitFor = fst (fst (dp_barrier D p)); closeAfter = snd (fst (dp_barrier D p));
             p1 = snd (dp_barrier D p)
         in if dp_sendErr D p \<noteq> None
            then fsm_trace b' = fsm_trace b @
                   [Ev_barrier p, Ev_closeSend p1, Ev_send_plnReturnCh None, Ev_recv waitFor,
                    Ev_gatherOK (dp_closeSend D p1),
                    Ev_gatherEOF (dp_gatherOK D (dp_closeSend D p1)),
                    Ev_close closeAfter]
                 \<and> fsm_pln b' = Some (dp_gatherEOF D (dp_gatherOK D (dp_closeSend D p1)))
                 \<and> fsm_state b' = stateError
            else fsm_trace b' = fsm_trace b @
                   [Ev_barrier p, Ev_send_plnReturnCh (Some p1), Ev_recv waitFor,
                    Ev_gatherOK p1, Ev_close closeAfter]
                 \<and> fsm_pln b' = Some (dp_gatherOK D p1))"
  using assms
  by (auto simp add: onReadAcknowledgements_def with_pln_def Let_def emit_def)

text \<open>
  C8. Every execution of \<^verbatim>\<open>readAcknowledgements\<close> by the owner of a pipeline, whether
  the send side has errored or not (and then it ends in the error state), returns in a
  terminal state having closed \<^verbatim>\<open>closeAfter\<close>, the second channel of its
  \<^verbatim>\<open>barrier()\<close>, exactly once and as its last act, after the receive from its
  \<^verbatim>\<open>waitFor\<close>; between that receive and the close it only gathers. (The receive is taken
  to complete: what the close then means to the next appender is the channel's semantics.)
\<close>

theorem C8_onReadAcknowledgements_closes_barrier:
  assumes "fsm_state b = stateReadAcknowledgements" and "fsm_pln b = Some p"
    and "fsm_plnReturnCh b"
  shows "\<exists>b' mid. onReadAcknowledgements D b = Returns b'
     \<and> (fsm_state b' = stateError \<or> fsm_state b' = stateFinished)
     \<and> (dp_sendErr D p \<noteq> None \<longrightarrow> fsm_state b' = stateError)
     \<and> fsm_trace b' = fsm_trace b @ mid @ [Ev_close (snd (fst (dp_barrier D p)))]
     \<and> Ev_recv (fst (fst (dp_barrier D p))) \<in> set mid
     \<and> (\<forall>c. Ev_close c \<notin> set mid)
     \<and> (\<forall>ev \<in> set (dropWhile (\<lambda>ev. ev \<noteq> Ev_recv (fst (fst (dp_barrier D p)))) mid).
           \<exists>q. ev = Ev_recv (fst (fst (dp_barrier D p))) \<or> ev = Ev_gatherOK q \<or> ev = Ev_gatherEOF q)"
  using assms
  by (simp add: onReadAcknowledgements_def with_pln_def Let_def emit_def)

text \<open>
  The theorem on the pipeline without peers, once with a send error \<open>EOF\<close> and once
  without: the first barrier of the pipeline has the channels 0 and 1.
\<close>

theorem C6_witness:
  "(\<exists>b'. onReadAcknowledgements spool_deps
         (fsm_at stateReadAcknowledgements (pln_5\<lparr>sp_sendErr := Some EOF\<rparr>)) = Returns b'
      \<and> \<not> fsm_plnReturnCh b'
      \<and> fsm_trace b' =
           [Ev_barrier (pln_5\<lparr>sp_sendErr := Some EOF\<rparr>),
            Ev_closeSend (pln_5\<lparr>sp_sendErr := Some EOF, sp_barriers := 1\<rparr>),
            Ev_send_plnReturnCh None, Ev_recv 0,
            Ev_gatherOK (pln_5\<lparr>sp_sendErr := Some EOF, sp_barriers := 1\<rparr>),
            Ev_gatherEOF (pln_5\<lparr>sp_sendErr := Some EOF, sp_barriers := 1\<rparr>),
            Ev_close 1]
      \<and> fsm_state b' = stateError)
   \<and> (\<exists>b'. onReadAcknowledgements spool_deps (fsm_at stateReadAcknowledgements pln_5)
         = Returns b'
      \<and> \<not> fsm_plnReturnCh b'
      \<and> fsm_trace b' =
           [Ev_barrier pln_5, Ev_send_plnReturnCh (Some (pln_5\<lparr>sp_barriers := 1\<rparr>)),
            Ev_recv 0, Ev_gatherOK (pln_5\<lparr>sp_barriers := 1\<rparr>), Ev_close 1])"
proof -
  have s: "fsm_state (fsm_at stateReadAcknowledgements p) = stateReadAcknowledgements"
    "fsm_pln (fsm_at stateReadAcknowledgements p) = Some p"
    "fsm_plnReturnCh (fsm_at stateReadAcknowledgements p)" for p
    by (simp_all add: fsm_at_def)
  have t: "fsm_trace (fsm_at stateReadAcknowledgements p) = []" for p
    by (simp add: fsm_at_def)
  from C6_onReadAcknowledgements_send_error [OF s, of spool_deps "pln_5\<lparr>sp_sendErr := Some EOF\<rparr>"]
       C6_onReadAcknowledgements_send_error [OF s, of spool_deps pln_5]
  show ?thesis
    by (simp add: spool_deps_simps t pln_5_def Let_def) blast
qed

text \<open>The barrier is released after a send error.\<close>

theorem C8_witness:
  "\<exists>b' mid. onReadAcknowledgements spool_deps
         (fsm_at stateReadAcknowledgements (pln_5\<lparr>sp_sendErr := Some EOF\<rparr>)) = Returns b'
      \<and> fsm_state b' = stateError
      \<and> fsm_trace b' = mid @ [Ev_close 1]
      \<and> Ev_recv 0 \<in> set mid"
proof -
  have s: "fsm_state (fsm_at stateReadAcknowledgements p) = stateReadAcknowledgements"
    "fsm_pln (fsm_at stateReadAcknowledgements p) = Some p"
    "fsm_plnReturnCh (fsm_at stateReadAcknowledgements p)" for p
    by (simp_all add: fsm_at_def)
  have t: "fsm_trace (fsm_at stateReadAcknowledgements p) = []" for p
    by (simp add: fsm_at_def)
  from C8_onReadAcknowledgements_closes_barrier [OF s, of spool_deps
      "pln_5\<lparr>sp_sendErr := Some EOF\<rparr>"]
  show ?thesis
    by (simp add: spool_deps_simps t pln_5_def) blast
qed

end
